theory Spec2Isabelle
  imports Main
begin

section \<open>Strings and the identity formatter\<close>

text \<open>
  A Python \<open>str\<close> is modelled as a \<open>string\<close> whose characters are the code points
  below 256.  The character classes are those of the regular expressions in
  \<open>_camel_to_kebab\<close>: \<open>[A-Z]\<close>, \<open>[a-z]\<close>, \<open>[a-z0-9]\<close> are ASCII ranges, and \<open>.\<close>
  is every character but the line feed.
\<close>

definition is_AZ :: "char \<Rightarrow> bool" where
  "is_AZ c = (65 \<le> (of_char c :: nat) \<and> (of_char c :: nat) \<le> 90)"

definition is_az :: "char \<Rightarrow> bool" where
  "is_az c = (97 \<le> (of_char c :: nat) \<and> (of_char c :: nat) \<le> 122)"

definition is_az09 :: "char \<Rightarrow> bool" where
  "is_az09 c = (is_az c \<or> (48 \<le> (of_char c :: nat) \<and> (of_char c :: nat) \<le> 57))"

definition is_dot :: "char \<Rightarrow> bool" where
  "is_dot c = ((of_char c :: nat) \<noteq> 10)"

text \<open>
  \<open>str.lower()\<close> on code points below 256: the ASCII capitals and the Latin-1
  capitals (\<open>0xC0\<close> to \<open>0xDE\<close> without the multiplication sign \<open>0xD7\<close>) move up by 32.
\<close>

definition lower_char :: "char \<Rightarrow> char" where
  "lower_char c =
     (let n = (of_char c :: nat)
      in if (65 \<le> n \<and> n \<le> 90) \<or> (192 \<le> n \<and> n \<le> 222 \<and> n \<noteq> 215)
         then char_of (n + 32) else c)"

definition lower :: "string \<Rightarrow> string" where
  "lower s = map lower_char s"

text \<open>
  \<open>re.sub(r"(.)([A-Z][a-z]+)", r"\1-\2", name)\<close>: the scan goes left to right; at each
  position the pattern needs one character that is not a line feed, then a capital,
  then at least one lower-case letter, and takes every lower-case letter that follows
  (the \<open>+\<close> is greedy).  A match is replaced by its first character, a hyphen and the
  rest of the match, and the scan goes on after the match; a position with no match
  copies its character.
\<close>

function sub_word :: "string \<Rightarrow> string" where
  "sub_word (c # u # l # rest) =
     (if is_dot c \<and> is_AZ u \<and> is_az l
      then c # CHR ''-'' # u # l # takeWhile is_az rest @ sub_word (dropWhile is_az rest)
      else c # sub_word (u # l # rest))"
| "sub_word [c, u] = [c, u]"
| "sub_word [c] = [c]"
| "sub_word [] = []"
  by pat_completeness auto
termination
  by (relation "measure length") (auto simp: length_dropWhile_le less_Suc_eq_le le_SucI)

text \<open>
  \<open>re.sub(r"([a-z0-9])([A-Z])", r"\1-\2", s1)\<close>: a lower-case letter or digit followed
  by a capital gets a hyphen between the two; the scan goes on after the capital.
\<close>

fun sub_hump :: "string \<Rightarrow> string" where
  "sub_hump (c # u # rest) =
     (if is_az09 c \<and> is_AZ u then c # CHR ''-'' # u # sub_hump rest
      else c # sub_hump (u # rest))"
| "sub_hump [c] = [c]"
| "sub_hump [] = []"

definition camel_to_kebab :: "string \<Rightarrow> string" where
  "camel_to_kebab name = (let s1 = sub_word name in lower (sub_hump s1))"

section \<open>Python values and \<open>json.dumps\<close>\<close>

text \<open>
  The values the agent handles: the JSON types of Python (\<open>None\<close>, \<open>bool\<close>, \<open>int\<close>,
  \<open>str\<close>, \<open>list\<close>, \<open>dict\<close> with \<open>str\<close> keys) and any other object, which has a class
  name and an identity and is not JSON-serializable.  Floats are left out.
\<close>

datatype pyval =
    PNone
  | PBool bool
  | PInt int
  | PStr string
  | PList "pyval list"
  | PDict "(string \<times> pyval) list"
  | PObject string nat

text \<open>
  An exception is a value, its class with its text.  \<open>TypeError\<close>, \<open>AttributeError\<close> and
  \<open>KeyError\<close> are raised by the interpreter and by \<open>json.dumps\<close>; \<open>json.loads\<close> raises
  \<open>JSONDecodeError\<close> on a text that is not JSON, \<open>TypeError\<close> on an argument that is not
  a text, and also a plain \<open>ValueError\<close> (an integer of more than 4300 digits) and
  \<open>RecursionError\<close> (nesting too deep); \<open>OtherError\<close> is any exception raised by the
  transport.  \<open>JSONDecodeError\<close> is a subclass of \<open>ValueError\<close>, so a handler for
  \<open>JSONDecodeError\<close> does not catch a plain \<open>ValueError\<close>.  All of them are caught by
  \<open>except Exception\<close>; \<open>str_of\<close> is \<open>str(e)\<close>.
\<close>

datatype error =
    TypeError string
  | AttributeError string
  | KeyError string
  | JSONDecodeError string
  | ValueError string
  | RecursionError string
  | OtherError string

fun str_of :: "error \<Rightarrow> string" where
  "str_of (TypeError m) = m"
| "str_of (AttributeError m) = m"
| "str_of (KeyError m) = m"
| "str_of (JSONDecodeError m) = m"
| "str_of (ValueError m) = m"
| "str_of (RecursionError m) = m"
| "str_of (OtherError m) = m"

fun is_JSONDecodeError :: "error \<Rightarrow> bool" where
  "is_JSONDecodeError (JSONDecodeError m) = True"
| "is_JSONDecodeError e = False"

fun is_TypeError :: "error \<Rightarrow> bool" where
  "is_TypeError (TypeError m) = True"
| "is_TypeError e = False"

fun type_name_of :: "pyval \<Rightarrow> string" where
  "type_name_of PNone = ''NoneType''"
| "type_name_of (PBool b) = ''bool''"
| "type_name_of (PInt i) = ''int''"
| "type_name_of (PStr s) = ''str''"
| "type_name_of (PList xs) = ''list''"
| "type_name_of (PDict kvs) = ''dict''"
| "type_name_of (PObject cls i) = cls"

definition digit_char :: "nat \<Rightarrow> char" where
  "digit_char d = (if d < 10 then char_of (48 + d) else char_of (87 + d))"

function show_nat :: "nat \<Rightarrow> string" where
  "show_nat n = (if n < 10 then [digit_char n] else show_nat (n div 10) @ [digit_char (n mod 10)])"
  by pat_completeness auto
termination
  by (relation "measure id") auto

function show_hex :: "nat \<Rightarrow> string" where
  "show_hex n = (if n < 16 then [digit_char n] else show_hex (n div 16) @ [digit_char (n mod 16)])"
  by pat_completeness auto
termination
  by (relation "measure id") auto

definition show_int :: "int \<Rightarrow> string" where
  "show_int i = (if i < 0 then CHR ''-'' # show_nat (nat (- i)) else show_nat (nat i))"

text \<open>
  Modelled from the Python standard library: \<open>json.dumps\<close> with its default options
  (\<open>ensure_ascii=True\<close>, separators \<open>", "\<close> and \<open>": "\<close>).  In a string the quote and the
  backslash are escaped, the control characters \<open>\b \t \n \f \r\<close> have their short
  escapes, and every other character outside the range from the space to the tilde
  becomes \<open>\u00XX\<close> in lower-case hexadecimal.
\<close>

definition escape_char :: "char \<Rightarrow> string" where
  "escape_char c =
     (let n = (of_char c :: nat)
      in if n = 34 then [CHR 0x5C, CHR 0x22]
         else if n = 92 then [CHR 0x5C, CHR 0x5C]
         else if n = 8 then [CHR 0x5C, CHR ''b'']
         else if n = 9 then [CHR 0x5C, CHR ''t'']
         else if n = 10 then [CHR 0x5C, CHR ''n'']
         else if n = 12 then [CHR 0x5C, CHR ''f'']
         else if n = 13 then [CHR 0x5C, CHR ''r'']
         else if 32 \<le> n \<and> n \<le> 126 then [c]
         else [CHR 0x5C, CHR ''u'', CHR ''0'', CHR ''0'', digit_char (n div 16), digit_char (n mod 16)])"

definition encode_string :: "string \<Rightarrow> string" where
  "encode_string s = CHR 0x22 # concat (map escape_char s) @ [CHR 0x22]"

fun join :: "string \<Rightarrow> string list \<Rightarrow> string" where
  "join sep [] = []"
| "join sep [x] = x"
| "join sep (x # y # ys) = x @ sep @ join sep (y # ys)"

fun json_dumps :: "pyval \<Rightarrow> error + string"
  and dumps_list :: "pyval list \<Rightarrow> error + string list"
  and dumps_items :: "(string \<times> pyval) list \<Rightarrow> error + string list"
where
  "json_dumps PNone = Inr ''null''"
| "json_dumps (PBool b) = Inr (if b then ''true'' else ''false'')"
| "json_dumps (PInt i) = Inr (show_int i)"
| "json_dumps (PStr s) = Inr (encode_string s)"
| "json_dumps (PList xs) =
     (case dumps_list xs of
        Inl e \<Rightarrow> Inl e
      | Inr ss \<Rightarrow> Inr (''['' @ join '', '' ss @ '']''))"
| "json_dumps (PDict kvs) =
     (case dumps_items kvs of
        Inl e \<Rightarrow> Inl e
      | Inr ss \<Rightarrow> Inr (''{'' @ join '', '' ss @ ''}''))"
| "json_dumps (PObject cls i) =
     Inl (TypeError (''Object of type '' @ cls @ '' is not JSON serializable''))"
| "dumps_list [] = Inr []"
| "dumps_list (x # xs) =
     (case json_dumps x of
        Inl e \<Rightarrow> Inl e
      | Inr s \<Rightarrow> (case dumps_list xs of Inl e \<Rightarrow> Inl e | Inr ss \<Rightarrow> Inr (s # ss)))"
| "dumps_items [] = Inr []"
| "dumps_items ((k, v) # kvs) =
     (case json_dumps v of
        Inl e \<Rightarrow> Inl e
      | Inr s \<Rightarrow>
          (case dumps_items kvs of
             Inl e \<Rightarrow> Inl e
           | Inr ss \<Rightarrow> Inr ((encode_string k @ '': '' @ s) # ss)))"

section \<open>The agent and its collaborators\<close>

definition UNSET :: pyval where
  "UNSET = PObject ''object'' 0"

definition STATE_ROW_ID :: string where
  "STATE_ROW_ID = ''cf_state_row_id''"

definition STATE_WAS_CHANGED :: string where
  "STATE_WAS_CHANGED = ''cf_state_was_changed''"

definition CF_AGENT_STATE :: string where
  "CF_AGENT_STATE = ''cf_agent_state''"

definition CF_AGENT_STATE_ERROR :: string where
  "CF_AGENT_STATE_ERROR = ''cf_agent_state_error''"

definition CF_AGENT_IDENTITY :: string where
  "CF_AGENT_IDENTITY = ''cf_agent_identity''"

definition RPC :: string where
  "RPC = ''rpc''"

text \<open>
  One agent instance with everything its methods read or change:
  \<^item> \<open>self_state\<close> is the attribute \<open>self._state\<close> (\<open>UNSET\<close> is the sentinel object);
  \<^item> \<open>table\<close> is the SQL table \<open>cf_agents_state\<close>, from the primary key \<open>id\<close> to the
    column \<open>state\<close>, which is a text or \<open>NULL\<close>;
  \<^item> \<open>sockets\<close> is what \<open>ctx.getWebSockets()\<close> returns, a connection being its identity;
  \<^item> \<open>send_fault\<close> says for which connections \<open>ws.send\<close> raises, and with what text;
  \<^item> \<open>sent\<close> is the log of the calls of \<open>ws.send\<close> that went through, oldest first;
  \<^item> \<open>ctx_id\<close> is \<open>str(self.ctx.id)\<close>.
\<close>

record agent =
  self_state :: pyval
  table :: "string \<rightharpoonup> string option"
  sockets :: "nat list"
  send_fault :: "nat \<Rightarrow> string option"
  sent :: "(nat \<times> string) list"
  ctx_id :: string

type_synonym 'a res = "(error + 'a) \<times> agent"

text \<open>
  An attribute of the agent's class: \<open>agent_callable\<close> holds when the attribute has a
  true \<open>_agent_callable\<close> (the decorator \<open>callable\<close> sets it), \<open>func_name\<close> is how the
  interpreter names the function in its errors (module and qualified name), and \<open>call\<close>
  is the bound method applied to its positional arguments; it may change the agent and
  may raise.
\<close>

record member =
  agent_callable :: bool
  func_name :: string
  call :: "pyval list \<Rightarrow> agent \<Rightarrow> pyval res"

text \<open>The class of the agent: its name, its \<open>initial_state\<close> and its attributes.\<close>

record agent_type =
  type_name :: string
  initial_state :: pyval
  members :: "string \<rightharpoonup> member"

text \<open>\<open>__init__\<close>: the cache is unset; \<open>CREATE TABLE IF NOT EXISTS\<close> keeps the rows.\<close>

definition init :: "agent \<Rightarrow> agent" where
  "init a = a\<lparr>self_state := UNSET\<rparr>"

definition ws_send :: "nat \<Rightarrow> string \<Rightarrow> agent \<Rightarrow> unit res" where
  "ws_send ws msg a =
     (case send_fault a ws of
        Some m \<Rightarrow> (Inl (OtherError m), a)
      | None \<Rightarrow> (Inr (), a\<lparr>sent := sent a @ [(ws, msg)]\<rparr>))"

text \<open>\<open>ws.send(json.dumps(v))\<close>: the value is serialized first, then sent.\<close>

definition send_json :: "nat \<Rightarrow> pyval \<Rightarrow> agent \<Rightarrow> unit res" where
  "send_json ws v a =
     (case json_dumps v of
        Inl e \<Rightarrow> (Inl e, a)
      | Inr msg \<Rightarrow> ws_send ws msg a)"

text \<open>The override points of the base class do nothing.\<close>

definition on_connect :: "nat \<Rightarrow> agent \<Rightarrow> unit res" where
  "on_connect ws a = (Inr (), a)"

definition on_close :: "nat \<Rightarrow> agent \<Rightarrow> unit res" where
  "on_close ws a = (Inr (), a)"

definition on_error :: "nat \<Rightarrow> agent \<Rightarrow> unit res" where
  "on_error ws a = (Inr (), a)"

definition on_state_changed :: "pyval \<Rightarrow> agent \<Rightarrow> unit res" where
  "on_state_changed v a = (Inr (), a)"

datatype message = Text string | Bytes

definition on_message :: "nat \<Rightarrow> message \<Rightarrow> agent \<Rightarrow> unit res" where
  "on_message ws m a = (Inr (), a)"

subsection \<open>State management\<close>

text \<open>
  The loop of \<open>_set_state_internal\<close> over \<open>self.ctx.getWebSockets()\<close>: the sender is
  skipped, and a \<open>ws.send\<close> that raises ends the loop with its exception.
\<close>

fun send_all :: "string \<Rightarrow> nat option \<Rightarrow> nat list \<Rightarrow> agent \<Rightarrow> unit res" where
  "send_all msg source_ws [] a = (Inr (), a)"
| "send_all msg source_ws (ws # rest) a =
     (if source_ws \<noteq> None \<and> Some ws = source_ws then send_all msg source_ws rest a
      else (case ws_send ws msg a of
              (Inl e, a') \<Rightarrow> (Inl e, a')
            | (Inr u, a') \<Rightarrow> send_all msg source_ws rest a'))"

definition set_state_internal :: "pyval \<Rightarrow> nat option \<Rightarrow> agent \<Rightarrow> unit res" where
  "set_state_internal v source_ws a =
     (let a1 = a\<lparr>self_state := v\<rparr>
      in case json_dumps v of
           Inl e \<Rightarrow> (Inl e, a1)
         | Inr state_json \<Rightarrow>
             (let a2 = a1\<lparr>table := (table a1)(STATE_ROW_ID \<mapsto> Some state_json)\<rparr>
              in case json_dumps (PBool True) of
                   Inl e \<Rightarrow> (Inl e, a2)
                 | Inr marker \<Rightarrow>
                     (let a3 = a2\<lparr>table := (table a2)(STATE_WAS_CHANGED \<mapsto> Some marker)\<rparr>
                      in case json_dumps (PDict [(''type'', PStr CF_AGENT_STATE), (''state'', v)]) of
                           Inl e \<Rightarrow> (Inl e, a3)
                         | Inr msg \<Rightarrow>
                             (case send_all msg source_ws (sockets a3) a3 of
                                (Inl e, a4) \<Rightarrow> (Inl e, a4)
                              | (Inr u, a4) \<Rightarrow> on_state_changed v a4))))"

definition set_state :: "pyval \<Rightarrow> agent \<Rightarrow> unit res" where
  "set_state v a = set_state_internal v None a"

text \<open>
  \<open>json.loads\<close> is a parameter of the model, \<open>loads\<close>: on a text it gives the parsed
  value or the exception it raises.  On a column that is \<open>NULL\<close> \<open>json.loads\<close> gets
  \<open>None\<close> and raises \<open>TypeError\<close>.
\<close>

definition loads_column :: "(string \<Rightarrow> error + pyval) \<Rightarrow> string option \<Rightarrow> error + pyval" where
  "loads_column loads col =
     (case col of
        None \<Rightarrow> Inl (TypeError ''the JSON object must be str, bytes or bytearray, not NoneType'')
      | Some text \<Rightarrow> loads text)"

text \<open>
  The property \<open>state\<close>.  Its \<open>except (json.JSONDecodeError, TypeError)\<close> catches these
  two classes; any other exception of \<open>json.loads\<close> leaves the property as it is.
\<close>

definition state :: "agent_type \<Rightarrow> (string \<Rightarrow> error + pyval) \<Rightarrow> agent \<Rightarrow> pyval res" where
  "state T loads a =
     (if self_state a \<noteq> UNSET then (Inr (self_state a), a)
      else case table a STATE_WAS_CHANGED of
        Some was_changed \<Rightarrow>
          (case table a STATE_ROW_ID of
             Some col \<Rightarrow>
               (case loads_column loads col of
                  Inr v \<Rightarrow> (Inr v, a\<lparr>self_state := v\<rparr>)
                | Inl err \<Rightarrow>
                    if is_JSONDecodeError err \<or> is_TypeError err then
                      (if initial_state T \<noteq> UNSET then
                         (case set_state_internal (initial_state T) None
                                 (a\<lparr>self_state := initial_state T\<rparr>) of
                            (Inl e, a') \<Rightarrow> (Inl e, a')
                          | (Inr u, a') \<Rightarrow> (Inr (self_state a'), a'))
                       else
                         (Inr PNone,
                          a\<lparr>table := ((table a)(STATE_ROW_ID := None))(STATE_WAS_CHANGED := None)\<rparr>))
                    else (Inl err, a))
           | None \<Rightarrow> (Inr (self_state a), a))
      | None \<Rightarrow>
          if initial_state T = UNSET then (Inr PNone, a)
          else (case set_state_internal (initial_state T) None a of
                  (Inl e, a') \<Rightarrow> (Inl e, a')
                | (Inr u, a') \<Rightarrow> (Inr (initial_state T), a')))"

subsection \<open>WebSocket lifecycle\<close>

text \<open>
  A request is its \<open>Upgrade\<close> header (\<open>None\<close> when absent) and \<open>pair\<close> is what
  \<open>WebSocketPair.new()\<close> gives, client first.  A response is either the status 101
  with the client socket or a JSON body.
\<close>

datatype response = Switching nat | JsonBody string

definition wants_upgrade :: "string option \<Rightarrow> bool" where
  "wants_upgrade upgrade =
     (case upgrade of None \<Rightarrow> False | Some u \<Rightarrow> u \<noteq> [] \<and> lower u = ''websocket'')"

definition fetch ::
  "agent_type \<Rightarrow> (string \<Rightarrow> error + pyval) \<Rightarrow> string option \<Rightarrow> nat \<times> nat \<Rightarrow> agent \<Rightarrow> response res"
where
  "fetch T loads upgrade pair a =
     (if wants_upgrade upgrade then
        (let client = fst pair; server = snd pair;
             a1 = a\<lparr>sockets := sockets a @ [server]\<rparr>
         in case send_json server
                   (PDict [(''type'', PStr CF_AGENT_IDENTITY),
                           (''name'', PStr (ctx_id a1)),
                           (''agent'', PStr (camel_to_kebab (type_name T)))]) a1 of
              (Inl e, a2) \<Rightarrow> (Inl e, a2)
            | (Inr u, a2) \<Rightarrow>
                (case state T loads a2 of
                   (Inl e, a3) \<Rightarrow> (Inl e, a3)
                 | (Inr current, a3) \<Rightarrow>
                     (case (if current \<noteq> PNone then
                              send_json server
                                (PDict [(''type'', PStr CF_AGENT_STATE), (''state'', current)]) a3
                            else (Inr (), a3)) of
                        (Inl e, a4) \<Rightarrow> (Inl e, a4)
                      | (Inr u, a4) \<Rightarrow>
                          (case on_connect server a4 of
                             (Inl e, a5) \<Rightarrow> (Inl e, a5)
                           | (Inr u, a5) \<Rightarrow> (Inr (Switching client), a5)))))
      else
        (case state T loads a of
           (Inl e, a1) \<Rightarrow> (Inl e, a1)
         | (Inr current, a1) \<Rightarrow>
             (case json_dumps (PDict [(''agent'', PStr (camel_to_kebab (type_name T))),
                                      (''state'', current)]) of
                Inl e \<Rightarrow> (Inl e, a1)
              | Inr body \<Rightarrow> (Inr (JsonBody body), a1))))"

definition webSocketClose :: "nat \<Rightarrow> agent \<Rightarrow> unit res" where
  "webSocketClose ws a = on_close ws a"

definition webSocketError :: "nat \<Rightarrow> agent \<Rightarrow> unit res" where
  "webSocketError ws a = on_error ws a"

subsection \<open>RPC dispatch\<close>

text \<open>
  \<open>parsed.get(key, default)\<close>: a \<open>dict\<close> answers, with the default for a missing key
  (keys of a parsed object are distinct); any other value has no attribute \<open>get\<close>.
\<close>

definition py_get :: "pyval \<Rightarrow> string \<Rightarrow> pyval \<Rightarrow> error + pyval" where
  "py_get parsed key dflt =
     (case parsed of
        PDict kvs \<Rightarrow> Inr (case map_of kvs key of None \<Rightarrow> dflt | Some v \<Rightarrow> v)
      | other \<Rightarrow>
          Inl (AttributeError ([CHR 0x27] @ type_name_of other @ [CHR 0x27]
                               @ '' object has no attribute '' @ [CHR 0x27] @ ''get'' @ [CHR 0x27])))"

definition startswith_underscore :: "string \<Rightarrow> bool" where
  "startswith_underscore name = (case name of [] \<Rightarrow> False | c # cs \<Rightarrow> c = CHR ''_'')"

text \<open>
  \<open>_get_callable_methods\<close> builds a \<open>dict\<close> from the names of \<open>dir(self)\<close> that do not
  start with an underscore and whose class attribute has a true \<open>_agent_callable\<close>.
\<close>

definition get_callable_methods :: "agent_type \<Rightarrow> (string \<rightharpoonup> member)" where
  "get_callable_methods T =
     (\<lambda>name. if startswith_underscore name then None
             else (case members T name of
                     None \<Rightarrow> None
                   | Some attr \<Rightarrow> if agent_callable attr then Some attr else None))"

text \<open>
  \<open>method_name not in callables\<close> hashes the name first: a \<open>list\<close> or a \<open>dict\<close> is
  unhashable and the test raises; the keys of \<open>callables\<close> are strings, so only a
  string can be found.
\<close>

definition find_callable :: "(string \<rightharpoonup> member) \<Rightarrow> pyval \<Rightarrow> error + member option" where
  "find_callable callables method_name =
     (case method_name of
        PStr name \<Rightarrow> Inr (callables name)
      | PList xs \<Rightarrow> Inl (TypeError (''unhashable type: '' @ [CHR 0x27] @ ''list'' @ [CHR 0x27]))
      | PDict kvs \<Rightarrow> Inl (TypeError (''unhashable type: '' @ [CHR 0x27] @ ''dict'' @ [CHR 0x27]))
      | other \<Rightarrow> Inr None)"

text \<open>
  The text of a value inside an f-string, \<open>str(v)\<close>; for an object it is the default
  \<open>repr\<close>, with the identity as the address.  It is used on hashable values only: the
  text of a \<open>list\<close> or a \<open>dict\<close> is not modelled and is left empty.
\<close>

fun py_str :: "pyval \<Rightarrow> string" where
  "py_str PNone = ''None''"
| "py_str (PBool b) = (if b then ''True'' else ''False'')"
| "py_str (PInt i) = show_int i"
| "py_str (PStr s) = s"
| "py_str (PObject cls i) = ''<'' @ cls @ '' object at 0x'' @ show_hex i @ ''>''"
| "py_str (PList xs) = []"
| "py_str (PDict kvs) = []"

text \<open>
  \<open>method(*args)\<close>: a \<open>list\<close> gives its elements, a \<open>str\<close> its characters, a \<open>dict\<close>
  its keys; anything else is not iterable, and the \<open>TypeError\<close> names the function
  (\<open>fname\<close>, with its module) and the type.
\<close>

definition star_args :: "string \<Rightarrow> pyval \<Rightarrow> error + pyval list" where
  "star_args fname args =
     (case args of
        PList xs \<Rightarrow> Inr xs
      | PStr s \<Rightarrow> Inr (map (\<lambda>c. PStr [c]) s)
      | PDict kvs \<Rightarrow> Inr (map (\<lambda>kv. PStr (fst kv)) kvs)
      | other \<Rightarrow>
          Inl (TypeError (fname @ ''() argument after * must be an iterable, not ''
                          @ type_name_of other)))"

definition rpc_response :: "pyval \<Rightarrow> bool \<Rightarrow> string \<Rightarrow> pyval \<Rightarrow> pyval" where
  "rpc_response rpc_id success key payload =
     PDict [(''type'', PStr RPC), (''id'', rpc_id), (''success'', PBool success), (key, payload)]"

definition handle_rpc :: "agent_type \<Rightarrow> nat \<Rightarrow> pyval \<Rightarrow> agent \<Rightarrow> unit res" where
  "handle_rpc T ws parsed a =
     (case py_get parsed ''id'' PNone of
        Inl e \<Rightarrow> (Inl e, a)
      | Inr rpc_id \<Rightarrow>
     (case py_get parsed ''method'' PNone of
        Inl e \<Rightarrow> (Inl e, a)
      | Inr method_name \<Rightarrow>
     (case py_get parsed ''args'' (PList []) of
        Inl e \<Rightarrow> (Inl e, a)
      | Inr args \<Rightarrow>
     (case find_callable (get_callable_methods T) method_name of
        Inl e \<Rightarrow> (Inl e, a)
      | Inr None \<Rightarrow>
          send_json ws
            (rpc_response rpc_id False ''error''
               (PStr (''Method '' @ py_str method_name @ '' is not callable''))) a
      | Inr (Some method) \<Rightarrow>
          (case (case star_args (func_name method) args of
                   Inl e \<Rightarrow> (Inl e, a)
                 | Inr argv \<Rightarrow>
                     (case call method argv a of
                        (Inl e, a1) \<Rightarrow> (Inl e, a1)
                      | (Inr result, a1) \<Rightarrow>
                          send_json ws (rpc_response rpc_id True ''result'' result) a1)) of
             (Inr u, a2) \<Rightarrow> (Inr (), a2)
           | (Inl e, a2) \<Rightarrow>
               send_json ws (rpc_response rpc_id False ''error'' (PStr (str_of e))) a2)))))"

definition webSocketMessage ::
  "agent_type \<Rightarrow> (string \<Rightarrow> error + pyval) \<Rightarrow> nat \<Rightarrow> message \<Rightarrow> agent \<Rightarrow> unit res"
where
  "webSocketMessage T loads ws message a =
     (case message of
        Bytes \<Rightarrow> on_message ws message a
      | Text text \<Rightarrow>
          (case loads text of
             Inl err \<Rightarrow> if is_JSONDecodeError err then on_message ws message a else (Inl err, a)
           | Inr parsed \<Rightarrow>
               (case py_get parsed ''type'' PNone of
                  Inl e \<Rightarrow> (Inl e, a)
                | Inr msg_type \<Rightarrow>
                    if msg_type = PStr CF_AGENT_STATE then
                      (case py_get parsed ''state'' PNone of
                         Inl e \<Rightarrow> (Inl e, a)
                       | Inr new_state \<Rightarrow>
                           (case set_state_internal new_state (Some ws) a of
                              (Inr u, a1) \<Rightarrow> (Inr (), a1)
                            | (Inl e, a1) \<Rightarrow>
                                send_json ws
                                  (PDict [(''type'', PStr CF_AGENT_STATE_ERROR),
                                          (''error'', PStr (str_of e))]) a1))
                    else if msg_type = PStr RPC then handle_rpc T ws parsed a
                    else on_message ws message a)))"

section \<open>Runs of an agent\<close>

text \<open>
  The entry points of an agent as events.  \<open>step\<close> gives the agent after the entry
  point has run, whether it returned or raised; \<open>Restart\<close> is the runtime creating the
  object again after hibernation (the table and the connections stay), and before
  \<open>webSocketClose\<close> the runtime has dropped the connection.
\<close>

datatype event =
    SetState pyval
  | ReadState
  | Fetch "string option" "nat \<times> nat"
  | Message nat message
  | Close nat
  | Error nat
  | Restart

fun step :: "agent_type \<Rightarrow> (string \<Rightarrow> error + pyval) \<Rightarrow> event \<Rightarrow> agent \<Rightarrow> agent" where
  "step T loads (SetState v) a = snd (set_state v a)"
| "step T loads ReadState a = snd (state T loads a)"
| "step T loads (Fetch upgrade pair) a = snd (fetch T loads upgrade pair a)"
| "step T loads (Message ws m) a = snd (webSocketMessage T loads ws m a)"
| "step T loads (Close ws) a = snd (webSocketClose ws (a\<lparr>sockets := removeAll ws (sockets a)\<rparr>))"
| "step T loads (Error ws) a = snd (webSocketError ws a)"
| "step T loads Restart a = init a"

fun run :: "agent_type \<Rightarrow> (string \<Rightarrow> error + pyval) \<Rightarrow> event list \<Rightarrow> agent \<Rightarrow> agent" where
  "run T loads [] a = a"
| "run T loads (e # es) a = run T loads es (step T loads e a)"

text \<open>The two rows of the table are both there or both missing.\<close>

definition paired :: "agent \<Rightarrow> bool" where
  "paired a = ((table a STATE_ROW_ID = None) = (table a STATE_WAS_CHANGED = None))"

text \<open>Every method that RPC can reach keeps a property of the agent.\<close>

definition callables_keep :: "(agent \<Rightarrow> bool) \<Rightarrow> agent_type \<Rightarrow> bool" where
  "callables_keep P T =
     (\<forall>name m argv a. get_callable_methods T name = Some m \<and> P a \<longrightarrow> P (snd (call m argv a)))"

section \<open>The example agent and sample inputs\<close>

text \<open>
  What the methods of \<open>entry.py\<close> do with Python values: the truth value of \<open>x or y\<close>,
  \<open>x["count"]\<close>, \<open>x + y\<close> and \<open>x - y\<close>, with the exceptions of the interpreter.  A
  \<open>bool\<close> counts as the integer 0 or 1; an object is one without these operations, and
  it is true, as every object without \<open>__bool__\<close> and \<open>__len__\<close> is.
\<close>

fun py_truthy :: "pyval \<Rightarrow> bool" where
  "py_truthy PNone = False"
| "py_truthy (PBool b) = b"
| "py_truthy (PInt i) = (i \<noteq> 0)"
| "py_truthy (PStr s) = (s \<noteq> [])"
| "py_truthy (PList xs) = (xs \<noteq> [])"
| "py_truthy (PDict kvs) = (kvs \<noteq> [])"
| "py_truthy (PObject cls i) = True"

definition py_or :: "pyval \<Rightarrow> pyval \<Rightarrow> pyval" where
  "py_or x y = (if py_truthy x then x else y)"

definition quoted :: "string \<Rightarrow> string" where
  "quoted s = [CHR 0x27] @ s @ [CHR 0x27]"

fun py_getitem :: "pyval \<Rightarrow> string \<Rightarrow> error + pyval" where
  "py_getitem (PDict kvs) key =
     (case map_of kvs key of
        None \<Rightarrow> Inl (KeyError (quoted key))
      | Some v \<Rightarrow> Inr v)"
| "py_getitem (PStr s) key =
     Inl (TypeError (''string indices must be integers, not '' @ quoted ''str''))"
| "py_getitem (PList xs) key =
     Inl (TypeError ''list indices must be integers or slices, not str'')"
| "py_getitem v key =
     Inl (TypeError (quoted (type_name_of v) @ '' object is not subscriptable''))"

fun as_int :: "pyval \<Rightarrow> int option" where
  "as_int (PInt i) = Some i"
| "as_int (PBool b) = Some (if b then 1 else 0)"
| "as_int v = None"

definition unsupported :: "string \<Rightarrow> pyval \<Rightarrow> pyval \<Rightarrow> error" where
  "unsupported opr x y =
     TypeError (''unsupported operand type(s) for '' @ opr @ '': '' @ quoted (type_name_of x)
                @ '' and '' @ quoted (type_name_of y))"

definition cannot_concatenate :: "string \<Rightarrow> pyval \<Rightarrow> error" where
  "cannot_concatenate kind y =
     TypeError (''can only concatenate '' @ kind @ '' (not '' @ [CHR 0x22] @ type_name_of y
                @ [CHR 0x22] @ '') to '' @ kind)"

definition py_add :: "pyval \<Rightarrow> pyval \<Rightarrow> error + pyval" where
  "py_add x y =
     (case (as_int x, as_int y) of
        (Some i, Some j) \<Rightarrow> Inr (PInt (i + j))
      | other \<Rightarrow>
          (case x of
             PStr s \<Rightarrow> (case y of PStr t \<Rightarrow> Inr (PStr (s @ t)) | y' \<Rightarrow> Inl (cannot_concatenate ''str'' y))
           | PList xs \<Rightarrow> (case y of PList ys \<Rightarrow> Inr (PList (xs @ ys)) | y' \<Rightarrow> Inl (cannot_concatenate ''list'' y))
           | x' \<Rightarrow> Inl (unsupported ''+'' x y)))"

definition py_sub :: "pyval \<Rightarrow> pyval \<Rightarrow> error + pyval" where
  "py_sub x y =
     (case (as_int x, as_int y) of
        (Some i, Some j) \<Rightarrow> Inr (PInt (i - j))
      | other \<Rightarrow> Inl (unsupported ''-'' x y))"

text \<open>
  The class \<open>CounterAgent\<close> of \<open>entry.py\<close>.  Its four hooks only print, which changes
  nothing of the agent, so the hooks of the base class stand for them.
  \<^verbatim>\<open>
    initial_state = {"count": 0, "last_action": None}
  \<close>
  Inside a method, \<open>self.state\<close> is the property of the base class, which reads of the
  class only \<open>initial_state\<close>.
\<close>

definition counter_initial_state :: pyval where
  "counter_initial_state = PDict [(''count'', PInt 0), (''last_action'', PNone)]"

definition counter_self_state :: "(string \<Rightarrow> error + pyval) \<Rightarrow> agent \<Rightarrow> pyval res" where
  "counter_self_state loads a =
     state \<lparr>type_name = ''CounterAgent'', initial_state = counter_initial_state,
            members = Map.empty\<rparr> loads a"

definition too_many :: "string \<Rightarrow> string \<Rightarrow> nat \<Rightarrow> error" where
  "too_many fname takes given =
     TypeError (fname @ ''() takes '' @ takes @ '' but '' @ show_nat given @ '' were given'')"

text \<open>
  \<^verbatim>\<open>
    @callable(description="Increment the counter by a given amount")
    def increment(self, amount=1):
        current = self.state or {"count": 0, "last_action": None}
        new_state = {
            "count": current["count"] + amount,
            "last_action": "increment",
        }
        self.set_state(new_state)
        return new_state["count"]
  \<close>
\<close>

definition increment :: "(string \<Rightarrow> error + pyval) \<Rightarrow> pyval list \<Rightarrow> agent \<Rightarrow> pyval res" where
  "increment loads argv a =
     (if 1 < length argv then
        (Inl (too_many ''CounterAgent.increment'' ''from 1 to 2 positional arguments''
                (length argv + 1)), a)
      else
        (let amount = (case argv of [] \<Rightarrow> PInt 1 | x # xs \<Rightarrow> x)
         in case counter_self_state loads a of
              (Inl e, a1) \<Rightarrow> (Inl e, a1)
            | (Inr st, a1) \<Rightarrow>
                (let current = py_or st (PDict [(''count'', PInt 0), (''last_action'', PNone)])
                 in case py_getitem current ''count'' of
                      Inl e \<Rightarrow> (Inl e, a1)
                    | Inr c \<Rightarrow>
                        (case py_add c amount of
                           Inl e \<Rightarrow> (Inl e, a1)
                         | Inr n \<Rightarrow>
                             (case set_state (PDict [(''count'', n),
                                                     (''last_action'', PStr ''increment'')]) a1 of
                                (Inl e, a2) \<Rightarrow> (Inl e, a2)
                              | (Inr u, a2) \<Rightarrow> (Inr n, a2))))))"

text \<open>
  \<^verbatim>\<open>
    @callable(description="Decrement the counter by a given amount")
    def decrement(self, amount=1):
        current = self.state or {"count": 0, "last_action": None}
        new_state = {
            "count": current["count"] - amount,
            "last_action": "decrement",
        }
        self.set_state(new_state)
        return new_state["count"]
  \<close>
\<close>

definition decrement :: "(string \<Rightarrow> error + pyval) \<Rightarrow> pyval list \<Rightarrow> agent \<Rightarrow> pyval res" where
  "decrement loads argv a =
     (if 1 < length argv then
        (Inl (too_many ''CounterAgent.decrement'' ''from 1 to 2 positional arguments''
                (length argv + 1)), a)
      else
        (let amount = (case argv of [] \<Rightarrow> PInt 1 | x # xs \<Rightarrow> x)
         in case counter_self_state loads a of
              (Inl e, a1) \<Rightarrow> (Inl e, a1)
            | (Inr st, a1) \<Rightarrow>
                (let current = py_or st (PDict [(''count'', PInt 0), (''last_action'', PNone)])
                 in case py_getitem current ''count'' of
                      Inl e \<Rightarrow> (Inl e, a1)
                    | Inr c \<Rightarrow>
                        (case py_sub c amount of
                           Inl e \<Rightarrow> (Inl e, a1)
                         | Inr n \<Rightarrow>
                             (case set_state (PDict [(''count'', n),
                                                     (''last_action'', PStr ''decrement'')]) a1 of
                                (Inl e, a2) \<Rightarrow> (Inl e, a2)
                              | (Inr u, a2) \<Rightarrow> (Inr n, a2))))))"

text \<open>
  \<^verbatim>\<open>
    @callable(description="Reset the counter to zero")
    def reset(self):
        self.set_state({"count": 0, "last_action": "reset"})
        return 0
  \<close>
\<close>

definition reset :: "pyval list \<Rightarrow> agent \<Rightarrow> pyval res" where
  "reset argv a =
     (if argv \<noteq> [] then
        (Inl (too_many ''CounterAgent.reset'' ''1 positional argument'' (length argv + 1)), a)
      else (case set_state (PDict [(''count'', PInt 0), (''last_action'', PStr ''reset'')]) a of
              (Inl e, a') \<Rightarrow> (Inl e, a')
            | (Inr u, a') \<Rightarrow> (Inr (PInt 0), a')))"

text \<open>
  \<^verbatim>\<open>
    @callable(description="Get the current count")
    def get_count(self):
        current = self.state or {"count": 0}
        return current["count"]
  \<close>
\<close>

definition get_count :: "(string \<Rightarrow> error + pyval) \<Rightarrow> pyval list \<Rightarrow> agent \<Rightarrow> pyval res" where
  "get_count loads argv a =
     (if argv \<noteq> [] then
        (Inl (too_many ''CounterAgent.get_count'' ''1 positional argument'' (length argv + 1)), a)
      else (case counter_self_state loads a of
              (Inl e, a1) \<Rightarrow> (Inl e, a1)
            | (Inr st, a1) \<Rightarrow>
                (case py_getitem (py_or st (PDict [(''count'', PInt 0)])) ''count'' of
                   Inl e \<Rightarrow> (Inl e, a1)
                 | Inr c \<Rightarrow> (Inr c, a1))))"

text \<open>The inherited \<open>set_state(self, state)\<close> as an attribute; no decorator marks it.\<close>

definition set_state_method :: "pyval list \<Rightarrow> agent \<Rightarrow> pyval res" where
  "set_state_method argv a =
     (case argv of
        [] \<Rightarrow>
          (Inl (TypeError (''Agent.set_state() missing 1 required positional argument: ''
                           @ quoted ''state'')), a)
      | [v] \<Rightarrow> (case set_state v a of
                  (Inl e, a') \<Rightarrow> (Inl e, a')
                | (Inr u, a') \<Rightarrow> (Inr PNone, a'))
      | other \<Rightarrow>
          (Inl (too_many ''Agent.set_state'' ''2 positional arguments'' (length argv + 1)), a))"

definition CounterAgent :: "(string \<Rightarrow> error + pyval) \<Rightarrow> agent_type" where
  "CounterAgent loads =
     \<lparr>type_name = ''CounterAgent'',
      initial_state = counter_initial_state,
      members = map_of
        [(''increment'', \<lparr>agent_callable = True, func_name = ''entry.CounterAgent.increment'',
                          call = increment loads\<rparr>),
         (''decrement'', \<lparr>agent_callable = True, func_name = ''entry.CounterAgent.decrement'',
                          call = decrement loads\<rparr>),
         (''reset'', \<lparr>agent_callable = True, func_name = ''entry.CounterAgent.reset'',
                      call = reset\<rparr>),
         (''get_count'', \<lparr>agent_callable = True, func_name = ''entry.CounterAgent.get_count'',
                          call = get_count loads\<rparr>),
         (''set_state'', \<lparr>agent_callable = False, func_name = ''agent.Agent.set_state'',
                          call = set_state_method\<rparr>)]\<rparr>"

text \<open>The base class \<open>Agent\<close> used as it is: no default state, nothing callable.\<close>

definition PlainAgent :: agent_type where
  "PlainAgent = \<lparr>type_name = ''Agent'', initial_state = UNSET, members = Map.empty\<rparr>"

text \<open>
  A sample of \<open>json.loads\<close>, for the texts of the sample runs: it parses the texts that
  \<open>json.dumps\<close> gives for the values of \<open>sample_values\<close>, as \<open>json.loads\<close> does, and on
  the text \<open>{\<close> it raises the \<open>JSONDecodeError\<close> that \<open>json.loads\<close> raises there.  No
  other text occurs in the samples; the sample treats each like the text \<open>{\<close>.
\<close>

definition sample_values :: "pyval list" where
  "sample_values =
     [PNone, PInt 0, PInt 7,
      PDict [(''count'', PInt 0), (''last_action'', PNone)],
      PDict [(''count'', PInt 0), (''last_action'', PStr ''reset'')],
      PDict [(''count'', PInt 5), (''last_action'', PStr ''increment'')],
      PDict [(''type'', PStr ''cf_agent_state''), (''state'', PInt 7)],
      PDict [(''type'', PStr ''rpc''), (''id'', PStr ''1''), (''method'', PStr ''increment''),
             (''args'', PList [PInt 5])],
      PDict [(''type'', PStr ''rpc''), (''id'', PStr ''2''), (''method'', PStr ''nope''),
             (''args'', PList [])],
      PDict [(''type'', PStr ''rpc''), (''id'', PStr ''3''), (''method'', PStr ''reset''),
             (''args'', PList [PInt 5])]]"

definition sample_loads :: "string \<Rightarrow> error + pyval" where
  "sample_loads text =
     (case List.find (\<lambda>v. json_dumps v = Inr text) sample_values of
        Some v \<Rightarrow> Inr v
      | None \<Rightarrow>
          Inl (JSONDecodeError
                 ''Expecting property name enclosed in double quotes: line 1 column 2 (char 1)''))"

text \<open>
  The text that \<open>json.dumps\<close> gives for a serializable value (the empty text where it
  raises); the sample texts are written with it.
\<close>

definition text_of :: "pyval \<Rightarrow> string" where
  "text_of v = (case json_dumps v of Inl e \<Rightarrow> [] | Inr s \<Rightarrow> s)"

text \<open>
  Sample agents: \<open>fresh\<close> has never been written and has three connections;
  \<open>one_down\<close> is \<open>fresh\<close> with a second connection whose \<open>send\<close> raises;
  \<open>null_stored\<close> has the state \<open>null\<close> persisted; \<open>corrupt\<close> has the marker row and
  a current row that does not parse, and \<open>corrupt_one_down\<close> also the connection that
  raises; \<open>seven\<close> has the state 7 cached and persisted.
\<close>

definition fresh :: agent where
  "fresh = \<lparr>self_state = UNSET, table = Map.empty, sockets = [1, 2, 3],
            send_fault = (\<lambda>ws. None), sent = [], ctx_id = ''default''\<rparr>"

definition one_down :: agent where
  "one_down = fresh\<lparr>send_fault := (\<lambda>ws. if ws = 2 then Some ''closed'' else None)\<rparr>"

definition null_stored :: agent where
  "null_stored =
     fresh\<lparr>table := [STATE_ROW_ID \<mapsto> Some ''null'', STATE_WAS_CHANGED \<mapsto> Some ''true'']\<rparr>"

definition corrupt :: agent where
  "corrupt =
     fresh\<lparr>table := [STATE_ROW_ID \<mapsto> Some ''{'', STATE_WAS_CHANGED \<mapsto> Some ''true'']\<rparr>"

definition corrupt_one_down :: agent where
  "corrupt_one_down =
     corrupt\<lparr>send_fault := (\<lambda>ws. if ws = 2 then Some ''closed'' else None)\<rparr>"

definition seven :: agent where
  "seven =
     fresh\<lparr>self_state := PInt 7,
           table := [STATE_ROW_ID \<mapsto> Some ''7'', STATE_WAS_CHANGED \<mapsto> Some ''true'']\<rparr>"


text \<open>
  A text of 5000 digits is valid JSON, but \<open>json.loads\<close> raises a plain \<open>ValueError\<close> on
  it (integers are limited to 4300 digits).  \<open>digits_loads\<close> is the sample parser with
  this text added, and \<open>long_row\<close> has this text as its current row.
\<close>

definition digits_loads :: "string \<Rightarrow> error + pyval" where
  "digits_loads raw =
     (if raw = replicate 5000 (CHR ''1'') then
        Inl (ValueError (''Exceeds the limit (4300 digits) for integer string conversion: '' @
                         ''value has 5000 digits; use sys.set_int_max_str_digits() '' @
                         ''to increase the limit''))
      else sample_loads raw)"

definition long_row :: agent where
  "long_row =
     fresh\<lparr>table := [STATE_ROW_ID \<mapsto> Some (replicate 5000 (CHR ''1'')),
                      STATE_WAS_CHANGED \<mapsto> Some ''true'']\<rparr>"

section \<open>Serialization and transport lemmas\<close>

lemma send_all_ok:
  "\<forall>ws \<in> set wss. Some ws \<noteq> src \<longrightarrow> send_fault a ws = None \<Longrightarrow>
   send_all msg src wss a =
     (Inr (), a\<lparr>sent := sent a @ map (\<lambda>ws. (ws, msg)) (filter (\<lambda>ws. Some ws \<noteq> src) wss)\<rparr>)"
  by (induction wss arbitrary: a) (auto simp: ws_send_def)

lemma send_all_fault:
  "\<forall>ws \<in> set pre. Some ws \<noteq> src \<longrightarrow> send_fault a ws = None \<Longrightarrow>
   send_fault a bad = Some m \<Longrightarrow> Some bad \<noteq> src \<Longrightarrow>
   send_all msg src (pre @ bad # post) a =
     (Inl (OtherError m),
      a\<lparr>sent := sent a @ map (\<lambda>ws. (ws, msg)) (filter (\<lambda>ws. Some ws \<noteq> src) pre)\<rparr>)"
  by (induction pre arbitrary: a) (auto simp: ws_send_def)

lemma send_all_frame:
  "send_all msg src wss a = (r, a') \<Longrightarrow>
   table a' = table a \<and> self_state a' = self_state a \<and> sockets a' = sockets a \<and>
   send_fault a' = send_fault a \<and> ctx_id a' = ctx_id a"
  by (induction wss arbitrary: a) (auto simp: ws_send_def split: if_splits option.splits)

lemma send_all_returns:
  "send_all msg src wss a = (Inr u, a') \<Longrightarrow>
   a' = a\<lparr>sent := sent a @ map (\<lambda>ws. (ws, msg)) (filter (\<lambda>ws. Some ws \<noteq> src) wss)\<rparr>"
proof (induction wss arbitrary: a)
  case Nil
  then show ?case by simp
next
  case (Cons ws wss)
  show ?case
  proof (cases "Some ws = src")
    case True
    with Cons.prems have "send_all msg src wss a = (Inr u, a')" by auto
    from Cons.IH[OF this] True show ?thesis by auto
  next
    case False
    with Cons.prems obtain a1 where s: "ws_send ws msg a = (Inr (), a1)"
      and r: "send_all msg src wss a1 = (Inr u, a')"
      by (auto split: prod.splits sum.splits)
    from s have a1: "a1 = a\<lparr>sent := sent a @ [(ws, msg)]\<rparr>"
      by (auto simp: ws_send_def split: option.splits)
    from Cons.IH[OF r] a1 False show ?thesis by simp
  qed
qed

lemma set_state_internal_fails:
  "json_dumps v = Inl e \<Longrightarrow> set_state_internal v src a = (Inl e, a\<lparr>self_state := v\<rparr>)"
  by (simp add: set_state_internal_def)

lemma set_state_internal_ok:
  assumes "json_dumps v = Inr js"
    and "\<forall>ws \<in> set (sockets a). Some ws \<noteq> src \<longrightarrow> send_fault a ws = None"
  shows "\<exists>msg. json_dumps (PDict [(''type'', PStr CF_AGENT_STATE), (''state'', v)]) = Inr msg \<and>
     set_state_internal v src a =
     (Inr (), a\<lparr>self_state := v,
               table := (table a)(STATE_ROW_ID \<mapsto> Some js, STATE_WAS_CHANGED \<mapsto> Some ''true''),
               sent := sent a @ map (\<lambda>ws. (ws, msg)) (filter (\<lambda>ws. Some ws \<noteq> src) (sockets a))\<rparr>)"
  using assms
  by (simp add: set_state_internal_def Let_def send_all_ok on_state_changed_def)

lemma set_state_internal_returns:
  assumes "set_state_internal v src a = (Inr u, a')"
  shows "\<exists>js msg. json_dumps v = Inr js \<and>
           json_dumps (PDict [(''type'', PStr CF_AGENT_STATE), (''state'', v)]) = Inr msg \<and>
           a' = a\<lparr>self_state := v,
                   table := (table a)(STATE_ROW_ID \<mapsto> Some js, STATE_WAS_CHANGED \<mapsto> Some ''true''),
                   sent := sent a @ map (\<lambda>ws. (ws, msg)) (filter (\<lambda>ws. Some ws \<noteq> src) (sockets a))\<rparr>"
proof (cases "json_dumps v")
  case (Inl e)
  with assms show ?thesis by (simp add: set_state_internal_fails)
next
  case (Inr js)
  let ?a3 = "a\<lparr>self_state := v,
               table := (table a)(STATE_ROW_ID \<mapsto> Some js, STATE_WAS_CHANGED \<mapsto> Some ''true'')\<rparr>"
  obtain msg where msg: "json_dumps (PDict [(''type'', PStr CF_AGENT_STATE), (''state'', v)]) = Inr msg"
    using Inr by simp
  from assms Inr msg have "send_all msg src (sockets a) ?a3 = (Inr (), a')"
    by (auto simp: set_state_internal_def Let_def on_state_changed_def split: prod.splits sum.splits)
  from send_all_returns[OF this] have "a' = ?a3\<lparr>sent := sent ?a3 @ map (\<lambda>ws. (ws, msg)) (filter (\<lambda>ws. Some ws \<noteq> src) (sockets a))\<rparr>" .
  then have "a' = a\<lparr>self_state := v,
                   table := (table a)(STATE_ROW_ID \<mapsto> Some js, STATE_WAS_CHANGED \<mapsto> Some ''true''),
                   sent := sent a @ map (\<lambda>ws. (ws, msg)) (filter (\<lambda>ws. Some ws \<noteq> src) (sockets a))\<rparr>"
    by simp
  with Inr msg show ?thesis by blast
qed

lemma set_state_internal_table:
  "set_state_internal v src a = (r, a') \<Longrightarrow>
   (\<exists>e. json_dumps v = Inl e \<and> r = Inl e \<and> table a' = table a) \<or>
   (\<exists>js. json_dumps v = Inr js \<and>
      table a' = (table a)(STATE_ROW_ID \<mapsto> Some js, STATE_WAS_CHANGED \<mapsto> Some ''true''))"
  by (cases "json_dumps v")
     (auto simp: set_state_internal_def Let_def on_state_changed_def
           split: sum.splits prod.splits dest: send_all_frame)

lemma set_state_internal_frame:
  "set_state_internal v src a = (r, a') \<Longrightarrow>
   self_state a' = v \<and> sockets a' = sockets a \<and> send_fault a' = send_fault a \<and> ctx_id a' = ctx_id a"
  by (cases "json_dumps v")
     (auto simp: set_state_internal_def Let_def on_state_changed_def
           split: sum.splits prod.splits dest: send_all_frame)

lemma state_frame:
  "state T loads a = (r, a') \<Longrightarrow>
   sockets a' = sockets a \<and> send_fault a' = send_fault a \<and> ctx_id a' = ctx_id a"
  by (auto simp: state_def split: if_splits option.splits sum.splits prod.splits
           dest!: set_state_internal_frame)

lemma state_sent:
  assumes "state T loads a = (Inr v, a')"
  shows "sent a' = sent a \<or>
         (\<exists>msg. json_dumps (PDict [(''type'', PStr CF_AGENT_STATE), (''state'', initial_state T)]) = Inr msg \<and>
                sent a' = sent a @ map (\<lambda>ws. (ws, msg)) (sockets a))"
  using assms
  by (auto simp: state_def split: if_splits option.splits sum.splits prod.splits
           dest!: set_state_internal_returns)

lemma state_cached: "self_state a \<noteq> UNSET \<Longrightarrow> state T loads a = (Inr (self_state a), a)"
  by (simp add: state_def)

lemma state_reads_initial_state_only:
  "initial_state T = initial_state T' \<Longrightarrow> state T loads a = state T' loads a"
  by (simp only: state_def)

section \<open>Reading and writing the state\<close>

text \<open>
  Claim C1, as the code has it.  For an agent that was never written (cache unset, no
  marker row) whose class has a JSON-serializable \<open>initial_state\<close>, and with every
  registered connection accepting the send: reading \<open>state\<close> returns the default and
  persists it.  Both rows are written, the default is cached and a state message goes to
  every registered connection.  The plain (non-upgrade) \<open>fetch\<close> resolves the state the
  same way, with the same writes, and returns it in its body.  A read of a state that is
  cached, of this agent or of any other, returns the cached value and changes nothing.
\<close>
theorem state_read_persists_default:
  assumes "self_state a = UNSET"
    and "table a STATE_WAS_CHANGED = None"
    and "initial_state T \<noteq> UNSET"
    and "json_dumps (initial_state T) = Inr js"
    and "\<forall>ws \<in> set (sockets a). send_fault a ws = None"
    and "\<not> wants_upgrade upgrade"
  shows "(\<exists>msg body a'.
           json_dumps (PDict [(''type'', PStr CF_AGENT_STATE), (''state'', initial_state T)]) = Inr msg \<and>
           json_dumps (PDict [(''agent'', PStr (camel_to_kebab (type_name T))),
                              (''state'', initial_state T)]) = Inr body \<and>
           a' = a\<lparr>self_state := initial_state T,
                   table := (table a)(STATE_ROW_ID \<mapsto> Some js, STATE_WAS_CHANGED \<mapsto> Some ''true''),
                   sent := sent a @ map (\<lambda>ws. (ws, msg)) (sockets a)\<rparr> \<and>
           state T loads a = (Inr (initial_state T), a') \<and>
           fetch T loads upgrade pair a = (Inr (JsonBody body), a') \<and>
           state T loads a' = (Inr (initial_state T), a')) \<and>
         (\<forall>b. self_state b \<noteq> UNSET \<longrightarrow> state T loads b = (Inr (self_state b), b))"
proof -
  from assms(5) have ok: "\<forall>ws \<in> set (sockets a). Some ws \<noteq> None \<longrightarrow> send_fault a ws = None"
    by simp
  from set_state_internal_ok[OF assms(4) ok] obtain msg where
    msg: "json_dumps (PDict [(''type'', PStr CF_AGENT_STATE), (''state'', initial_state T)]) = Inr msg"
    and w: "set_state_internal (initial_state T) None a =
      (Inr (), a\<lparr>self_state := initial_state T,
                table := (table a)(STATE_ROW_ID \<mapsto> Some js, STATE_WAS_CHANGED \<mapsto> Some ''true''),
                sent := sent a @ map (\<lambda>ws. (ws, msg)) (filter (\<lambda>ws. Some ws \<noteq> None) (sockets a))\<rparr>)"
    by blast
  let ?a' = "a\<lparr>self_state := initial_state T,
                table := (table a)(STATE_ROW_ID \<mapsto> Some js, STATE_WAS_CHANGED \<mapsto> Some ''true''),
                sent := sent a @ map (\<lambda>ws. (ws, msg)) (sockets a)\<rparr>"
  have st: "state T loads a = (Inr (initial_state T), ?a')"
    using assms(1-3) w by (simp add: state_def)
  obtain body where body: "json_dumps (PDict [(''agent'', PStr (camel_to_kebab (type_name T))),
                              (''state'', initial_state T)]) = Inr body"
    using assms(4) by simp
  have f: "fetch T loads upgrade pair a = (Inr (JsonBody body), ?a')"
    using assms(6) st body by (simp add: fetch_def)
  have again: "state T loads ?a' = (Inr (initial_state T), ?a')"
    using assms(3) by (simp add: state_def)
  have cached: "\<forall>b. self_state b \<noteq> UNSET \<longrightarrow> state T loads b = (Inr (self_state b), b)"
    by (simp add: state_cached)
  from msg body st f again cached show ?thesis by blast
qed


text \<open>
  Claim C3, as the code has it.  When the value is serializable and the first
  connection whose \<open>send\<close> raises is \<open>bad\<close>, the fan-out ends there: the connections
  before \<open>bad\<close> (the sender left out) have the message, those after it get nothing, and
  the exception of the send is raised to the caller.  Both rows and the cache keep the
  new value: nothing is rolled back.
\<close>
theorem broadcast_stops_at_failed_send:
  assumes "json_dumps v = Inr js"
    and "sockets a = pre @ bad # post"
    and "\<forall>ws \<in> set pre. Some ws \<noteq> src \<longrightarrow> send_fault a ws = None"
    and "send_fault a bad = Some m"
    and "Some bad \<noteq> src"
  shows "\<exists>msg. json_dumps (PDict [(''type'', PStr CF_AGENT_STATE), (''state'', v)]) = Inr msg \<and>
           set_state_internal v src a =
             (Inl (OtherError m),
              a\<lparr>self_state := v,
                table := (table a)(STATE_ROW_ID \<mapsto> Some js, STATE_WAS_CHANGED \<mapsto> Some ''true''),
                sent := sent a @ map (\<lambda>ws. (ws, msg)) (filter (\<lambda>ws. Some ws \<noteq> src) pre)\<rparr>)"
  using assms
  by (simp add: set_state_internal_def Let_def send_all_fault)

text \<open>
  Claim C5, as the code has it.  The marker row is there, the cache is unset, and
  \<open>json.loads\<close> raises \<open>err\<close> on the current row.  When \<open>err\<close> is a \<open>JSONDecodeError\<close> or
  a \<open>TypeError\<close>, the read falls back.  Without a default it deletes both rows and
  returns \<open>None\<close>, the cache staying unset.  With a default it caches the default and
  writes it back by an ordinary write: when \<open>json.dumps\<close> rejects the default the read
  raises that error and no row changes; when every registered connection accepts the
  send the read returns the default, both rows written and the default sent to every
  connection; and when \<open>bad\<close> is the first connection whose send raises, the read raises
  that error, both rows written and the default sent to the connections before \<open>bad\<close>.
  Any other exception of \<open>json.loads\<close> is raised by the read, and nothing changes.
\<close>
theorem corrupt_row_read:
  assumes "self_state a = UNSET"
    and "table a STATE_WAS_CHANGED = Some marker"
    and "table a STATE_ROW_ID = Some col"
    and "loads_column loads col = Inl err"
  shows "(\<not> (is_JSONDecodeError err \<or> is_TypeError err) \<longrightarrow> state T loads a = (Inl err, a)) \<and>
         ((is_JSONDecodeError err \<or> is_TypeError err) \<and> initial_state T = UNSET \<longrightarrow>
            state T loads a =
              (Inr PNone, a\<lparr>table := ((table a)(STATE_ROW_ID := None))(STATE_WAS_CHANGED := None)\<rparr>)) \<and>
         ((is_JSONDecodeError err \<or> is_TypeError err) \<and> initial_state T \<noteq> UNSET \<longrightarrow>
            (\<forall>e. json_dumps (initial_state T) = Inl e \<longrightarrow>
               state T loads a = (Inl e, a\<lparr>self_state := initial_state T\<rparr>)) \<and>
            (\<forall>js. json_dumps (initial_state T) = Inr js \<longrightarrow>
               (\<exists>msg. json_dumps (PDict [(''type'', PStr CF_AGENT_STATE), (''state'', initial_state T)])
                        = Inr msg \<and>
                  ((\<forall>ws \<in> set (sockets a). send_fault a ws = None) \<longrightarrow>
                     state T loads a =
                       (Inr (initial_state T),
                        a\<lparr>self_state := initial_state T,
                          table := (table a)(STATE_ROW_ID \<mapsto> Some js, STATE_WAS_CHANGED \<mapsto> Some ''true''),
                          sent := sent a @ map (\<lambda>ws. (ws, msg)) (sockets a)\<rparr>)) \<and>
                  (\<forall>pre bad post m.
                     sockets a = pre @ bad # post \<and> (\<forall>ws \<in> set pre. send_fault a ws = None) \<and>
                     send_fault a bad = Some m \<longrightarrow>
                     state T loads a =
                       (Inl (OtherError m),
                        a\<lparr>self_state := initial_state T,
                          table := (table a)(STATE_ROW_ID \<mapsto> Some js, STATE_WAS_CHANGED \<mapsto> Some ''true''),
                          sent := sent a @ map (\<lambda>ws. (ws, msg)) pre\<rparr>)))))"
proof (intro conjI impI allI)
  assume "\<not> (is_JSONDecodeError err \<or> is_TypeError err)"
  with assms show "state T loads a = (Inl err, a)"
    by (simp add: state_def)
next
  assume "(is_JSONDecodeError err \<or> is_TypeError err) \<and> initial_state T = UNSET"
  with assms show "state T loads a =
      (Inr PNone, a\<lparr>table := ((table a)(STATE_ROW_ID := None))(STATE_WAS_CHANGED := None)\<rparr>)"
    by (auto simp: state_def)
next
  fix e
  assume c: "(is_JSONDecodeError err \<or> is_TypeError err) \<and> initial_state T \<noteq> UNSET"
    and d: "json_dumps (initial_state T) = Inl e"
  from set_state_internal_fails[OF d, of None "a\<lparr>self_state := initial_state T\<rparr>"] assms c
  show "state T loads a = (Inl e, a\<lparr>self_state := initial_state T\<rparr>)"
    by (auto simp: state_def)
next
  fix js
  assume c: "(is_JSONDecodeError err \<or> is_TypeError err) \<and> initial_state T \<noteq> UNSET"
    and d: "json_dumps (initial_state T) = Inr js"
  let ?a0 = "a\<lparr>self_state := initial_state T\<rparr>"
  let ?rows = "(table a)(STATE_ROW_ID \<mapsto> Some js, STATE_WAS_CHANGED \<mapsto> Some ''true'')"
  obtain msg where
    msg: "json_dumps (PDict [(''type'', PStr CF_AGENT_STATE), (''state'', initial_state T)]) = Inr msg"
    using d by simp
  from assms c have st: "state T loads a =
      (case set_state_internal (initial_state T) None ?a0 of
         (Inl e, a') \<Rightarrow> (Inl e, a')
       | (Inr u, a') \<Rightarrow> (Inr (self_state a'), a'))"
    by (auto simp: state_def)
  have good: "(\<forall>ws \<in> set (sockets a). send_fault a ws = None) \<longrightarrow>
       state T loads a =
         (Inr (initial_state T),
          a\<lparr>self_state := initial_state T, table := ?rows,
            sent := sent a @ map (\<lambda>ws. (ws, msg)) (sockets a)\<rparr>)"
  proof
    assume "\<forall>ws \<in> set (sockets a). send_fault a ws = None"
    then have ok: "\<forall>ws \<in> set (sockets ?a0). Some ws \<noteq> None \<longrightarrow> send_fault ?a0 ws = None"
      by simp
    from set_state_internal_ok[OF d ok] msg st
    show "state T loads a =
         (Inr (initial_state T),
          a\<lparr>self_state := initial_state T, table := ?rows,
            sent := sent a @ map (\<lambda>ws. (ws, msg)) (sockets a)\<rparr>)"
      by auto
  qed
  have bad: "\<forall>pre bad post m.
       sockets a = pre @ bad # post \<and> (\<forall>ws \<in> set pre. send_fault a ws = None) \<and>
       send_fault a bad = Some m \<longrightarrow>
       state T loads a =
         (Inl (OtherError m),
          a\<lparr>self_state := initial_state T, table := ?rows,
            sent := sent a @ map (\<lambda>ws. (ws, msg)) pre\<rparr>)"
  proof (intro allI impI)
    fix pre bad post m
    assume h: "sockets a = pre @ bad # post \<and> (\<forall>ws \<in> set pre. send_fault a ws = None) \<and>
       send_fault a bad = Some m"
    then have s: "sockets ?a0 = pre @ bad # post"
      and p: "\<forall>ws \<in> set pre. Some ws \<noteq> None \<longrightarrow> send_fault ?a0 ws = None"
      and b: "send_fault ?a0 bad = Some m"
      and n: "Some bad \<noteq> None"
      by simp_all
    have w: "set_state_internal (initial_state T) None ?a0 =
        (Inl (OtherError m),
         ?a0\<lparr>self_state := initial_state T, table := (table ?a0)(STATE_ROW_ID \<mapsto> Some js,
                STATE_WAS_CHANGED \<mapsto> Some ''true''),
              sent := sent ?a0 @ map (\<lambda>ws. (ws, msg)) (filter (\<lambda>ws. Some ws \<noteq> None) pre)\<rparr>)"
      using d s p b n msg by (simp add: set_state_internal_def Let_def send_all_fault)
    from w st show "state T loads a =
         (Inl (OtherError m),
          a\<lparr>self_state := initial_state T, table := ?rows,
            sent := sent a @ map (\<lambda>ws. (ws, msg)) pre\<rparr>)"
      by simp
  qed
  from msg good bad
  show "\<exists>msg. json_dumps (PDict [(''type'', PStr CF_AGENT_STATE), (''state'', initial_state T)])
                        = Inr msg \<and>
                  ((\<forall>ws \<in> set (sockets a). send_fault a ws = None) \<longrightarrow>
                     state T loads a =
                       (Inr (initial_state T),
                        a\<lparr>self_state := initial_state T,
                          table := (table a)(STATE_ROW_ID \<mapsto> Some js, STATE_WAS_CHANGED \<mapsto> Some ''true''),
                          sent := sent a @ map (\<lambda>ws. (ws, msg)) (sockets a)\<rparr>)) \<and>
                  (\<forall>pre bad post m.
                     sockets a = pre @ bad # post \<and> (\<forall>ws \<in> set pre. send_fault a ws = None) \<and>
                     send_fault a bad = Some m \<longrightarrow>
                     state T loads a =
                       (Inl (OtherError m),
                        a\<lparr>self_state := initial_state T,
                          table := (table a)(STATE_ROW_ID \<mapsto> Some js, STATE_WAS_CHANGED \<mapsto> Some ''true''),
                          sent := sent a @ map (\<lambda>ws. (ws, msg)) pre\<rparr>))"
    by blast
qed

section \<open>Connections\<close>

text \<open>
  Claim C4, as the code has it.  On an upgrade request the new connection is registered
  and gets the identity message first.  Then the state is resolved on the agent \<open>a1\<close>
  (new connection registered, identity sent), and a state message with the resolved
  value is sent to the new connection exactly when that value is not \<open>None\<close>.  The
  resolution itself sends nothing, or, when it persists the default, the default to
  every registered connection, the new one included.
\<close>
theorem open_sends_identity_then_state:
  assumes "wants_upgrade upgrade"
    and "send_fault a server = None"
    and "json_dumps (PDict [(''type'', PStr CF_AGENT_IDENTITY), (''name'', PStr (ctx_id a)),
                            (''agent'', PStr (camel_to_kebab (type_name T)))]) = Inr ident"
    and "a1 = a\<lparr>sockets := sockets a @ [server], sent := sent a @ [(server, ident)]\<rparr>"
    and "state T loads a1 = (Inr current, a2)"
    and "json_dumps current = Inr js"
  shows "\<exists>msg. json_dumps (PDict [(''type'', PStr CF_AGENT_STATE), (''state'', current)]) = Inr msg \<and>
           fetch T loads upgrade (client, server) a =
             (Inr (Switching client),
              a2\<lparr>sent := sent a2 @ (if current \<noteq> PNone then [(server, msg)] else [])\<rparr>) \<and>
           (sent a2 = sent a @ [(server, ident)] \<or>
            (\<exists>dmsg. json_dumps (PDict [(''type'', PStr CF_AGENT_STATE), (''state'', initial_state T)])
                       = Inr dmsg \<and>
                    sent a2 = sent a @ [(server, ident)] @ map (\<lambda>ws. (ws, dmsg)) (sockets a @ [server])))"
proof -
  obtain msg where msg: "json_dumps (PDict [(''type'', PStr CF_AGENT_STATE), (''state'', current)]) = Inr msg"
    using assms(6) by simp
  from state_frame[OF assms(5)] assms(2,4) have ok: "send_fault a2 server = None"
    by simp
  from assms(4,5) have st: "state T loads (a\<lparr>sockets := sockets a @ [server],
      sent := sent a @ [(server, ident)]\<rparr>) = (Inr current, a2)"
    by simp
  have f: "fetch T loads upgrade (client, server) a =
             (Inr (Switching client),
              a2\<lparr>sent := sent a2 @ (if current \<noteq> PNone then [(server, msg)] else [])\<rparr>)"
    using assms(1,2,3) st msg ok
    by (simp add: fetch_def Let_def ws_send_def send_json_def on_connect_def)
  from state_sent[OF assms(5)] assms(4)
  have "sent a2 = sent a @ [(server, ident)] \<or>
            (\<exists>dmsg. json_dumps (PDict [(''type'', PStr CF_AGENT_STATE), (''state'', initial_state T)])
                       = Inr dmsg \<and>
                    sent a2 = sent a @ [(server, ident)] @ map (\<lambda>ws. (ws, dmsg)) (sockets a @ [server]))"
    by auto
  with msg f show ?thesis by blast
qed

text \<open>
  Claim C9.  A state push from connection \<open>c1\<close> with a serializable value, every other
  connection accepting the send: the value is cached and persisted, and the state
  message is sent to the registered connections other than \<open>c1\<close>, each once, in the
  order of \<open>getWebSockets()\<close>; \<open>c1\<close> gets nothing.
\<close>
theorem state_push_skips_sender:
  assumes "loads raw = Inr (PDict kvs)"
    and "map_of kvs ''type'' = Some (PStr CF_AGENT_STATE)"
    and "py_get (PDict kvs) ''state'' PNone = Inr v"
    and "json_dumps v = Inr js"
    and "\<forall>ws \<in> set (sockets a). ws \<noteq> c1 \<longrightarrow> send_fault a ws = None"
  shows "\<exists>msg. json_dumps (PDict [(''type'', PStr CF_AGENT_STATE), (''state'', v)]) = Inr msg \<and>
           webSocketMessage T loads c1 (Text raw) a =
             (Inr (),
              a\<lparr>self_state := v,
                table := (table a)(STATE_ROW_ID \<mapsto> Some js, STATE_WAS_CHANGED \<mapsto> Some ''true''),
                sent := sent a @ map (\<lambda>ws. (ws, msg)) (filter (\<lambda>ws. ws \<noteq> c1) (sockets a))\<rparr>)"
proof -
  from assms(5) have ok: "\<forall>ws \<in> set (sockets a). Some ws \<noteq> Some c1 \<longrightarrow> send_fault a ws = None"
    by simp
  from set_state_internal_ok[OF assms(4) ok] obtain msg where
    msg: "json_dumps (PDict [(''type'', PStr CF_AGENT_STATE), (''state'', v)]) = Inr msg"
    and w: "set_state_internal v (Some c1) a =
      (Inr (), a\<lparr>self_state := v,
                table := (table a)(STATE_ROW_ID \<mapsto> Some js, STATE_WAS_CHANGED \<mapsto> Some ''true''),
                sent := sent a @ map (\<lambda>ws. (ws, msg)) (filter (\<lambda>ws. Some ws \<noteq> Some c1) (sockets a))\<rparr>)"
    by blast
  have "webSocketMessage T loads c1 (Text raw) a =
             (Inr (),
              a\<lparr>self_state := v,
                table := (table a)(STATE_ROW_ID \<mapsto> Some js, STATE_WAS_CHANGED \<mapsto> Some ''true''),
                sent := sent a @ map (\<lambda>ws. (ws, msg)) (filter (\<lambda>ws. ws \<noteq> c1) (sockets a))\<rparr>)"
    using assms(1-3) w by (simp add: webSocketMessage_def py_get_def)
  with msg show ?thesis by blast
qed

section \<open>Remote calls\<close>

text \<open>
  Claim C7.  An RPC request whose method name is not among the callable methods is
  answered on the requesting connection with the request's \<open>id\<close>, \<open>success\<close> false and
  the error \<open>Method <name> is not callable\<close>, the name as the request has it; cache and
  table stay as they were.  A name whose class attribute is missing or has no true
  \<open>_agent_callable\<close> is never among the callable methods, whatever its visibility, and
  neither is a name that starts with an underscore.
\<close>
theorem uncallable_method_answer:
  assumes "py_get parsed ''id'' PNone = Inr rpc_id"
    and "py_get parsed ''method'' PNone = Inr (PStr name)"
    and "get_callable_methods T name = None"
    and "json_dumps rpc_id = Inr id_text"
    and "send_fault a ws = None"
  shows "(\<exists>msg. json_dumps (PDict [(''type'', PStr ''rpc''), (''id'', rpc_id), (''success'', PBool False),
                                  (''error'', PStr (''Method '' @ name @ '' is not callable''))])
                  = Inr msg \<and>
               handle_rpc T ws parsed a = (Inr (), a\<lparr>sent := sent a @ [(ws, msg)]\<rparr>)) \<and>
         (\<forall>other. (\<forall>attr. members T other = Some attr \<longrightarrow> \<not> agent_callable attr) \<longrightarrow>
                  get_callable_methods T other = None) \<and>
         (\<forall>other. startswith_underscore other \<longrightarrow> get_callable_methods T other = None)"
proof -
  from assms(1) obtain kvs where p: "parsed = PDict kvs"
    by (cases parsed) (auto simp: py_get_def)
  have "\<exists>msg. json_dumps (PDict [(''type'', PStr ''rpc''), (''id'', rpc_id), (''success'', PBool False),
                                  (''error'', PStr (''Method '' @ name @ '' is not callable''))])
                  = Inr msg \<and>
               handle_rpc T ws parsed a = (Inr (), a\<lparr>sent := sent a @ [(ws, msg)]\<rparr>)"
    using assms p
    by (simp add: handle_rpc_def rpc_response_def RPC_def ws_send_def send_json_def py_get_def
          find_callable_def)
  moreover have "\<forall>other. (\<forall>attr. members T other = Some attr \<longrightarrow> \<not> agent_callable attr) \<longrightarrow>
                  get_callable_methods T other = None"
    by (auto simp: get_callable_methods_def split: option.splits)
  moreover have "\<forall>other. startswith_underscore other \<longrightarrow> get_callable_methods T other = None"
    by (simp add: get_callable_methods_def)
  ultimately show ?thesis by blast
qed

text \<open>
  Claim C8.  An RPC request naming a callable method, with a list \<open>argv\<close> as its \<open>args\<close>
  (the empty list when the request has none), calls the method on exactly \<open>argv\<close>, in
  the order of the request.  When the method returns a serializable result, the answer
  is \<open>success\<close> true with the result; when it raises, the answer is \<open>success\<close> false with
  \<open>str(e)\<close>.  Either way \<open>_handle_rpc\<close> returns normally, the answer carries the
  request's \<open>id\<close> and goes to the requesting connection only, after whatever the method
  itself did, and the connections stay registered.
\<close>
theorem callable_method_answer:
  assumes "py_get parsed ''id'' PNone = Inr rpc_id"
    and "py_get parsed ''method'' PNone = Inr (PStr name)"
    and "py_get parsed ''args'' (PList []) = Inr (PList argv)"
    and "get_callable_methods T name = Some method"
    and "call method argv a = (r, a1)"
    and "json_dumps rpc_id = Inr id_text"
    and "send_fault a1 ws = None"
  shows "(\<forall>result rt. r = Inr result \<and> json_dumps result = Inr rt \<longrightarrow>
            (\<exists>msg. json_dumps (PDict [(''type'', PStr ''rpc''), (''id'', rpc_id), (''success'', PBool True),
                                       (''result'', result)]) = Inr msg \<and>
                   handle_rpc T ws parsed a = (Inr (), a1\<lparr>sent := sent a1 @ [(ws, msg)]\<rparr>))) \<and>
         (\<forall>e. r = Inl e \<longrightarrow>
            (\<exists>msg. json_dumps (PDict [(''type'', PStr ''rpc''), (''id'', rpc_id), (''success'', PBool False),
                                       (''error'', PStr (str_of e))]) = Inr msg \<and>
                   handle_rpc T ws parsed a = (Inr (), a1\<lparr>sent := sent a1 @ [(ws, msg)]\<rparr>)))"
proof -
  from assms(1) obtain kvs where p: "parsed = PDict kvs"
    by (cases parsed) (auto simp: py_get_def)
  show ?thesis
    using assms p
    by (auto simp: handle_rpc_def rpc_response_def RPC_def ws_send_def send_json_def py_get_def
          find_callable_def star_args_def)
qed

section \<open>The two rows of the table\<close>

lemma paired_updates:
  "paired (b\<lparr>sent := ms\<rparr>) = paired b"
  "paired (b\<lparr>sockets := wss\<rparr>) = paired b"
  "paired (b\<lparr>self_state := x\<rparr>) = paired b"
  by (simp_all add: paired_def)

lemma paired_send_json: "send_json ws v a = (r, a') \<Longrightarrow> paired a' = paired a"
  by (auto simp: send_json_def ws_send_def paired_def split: option.splits sum.splits)

lemma paired_set_state_internal: "paired a \<Longrightarrow> paired (snd (set_state_internal v src a))"
proof -
  assume p: "paired a"
  obtain r a' where e: "set_state_internal v src a = (r, a')" by (cases "set_state_internal v src a")
  from set_state_internal_table[OF e] p have "paired a'"
    by (auto simp: paired_def STATE_ROW_ID_def STATE_WAS_CHANGED_def)
  with e show ?thesis by simp
qed

lemma paired_state: "paired a \<Longrightarrow> paired (snd (state T loads a))"
proof -
  assume p: "paired a"
  have u: "\<And>b. paired (b\<lparr>self_state := x\<rparr>) = paired b" for x by (simp add: paired_def)
  have d: "paired (a\<lparr>table := ((table a)(STATE_ROW_ID := None))(STATE_WAS_CHANGED := None)\<rparr>)"
    by (simp add: paired_def)
  show ?thesis
    using p d paired_set_state_internal[of a "initial_state T" None]
      paired_set_state_internal[of "a\<lparr>self_state := initial_state T\<rparr>" "initial_state T" None]
    by (auto simp: state_def u split: option.splits sum.splits prod.splits)
qed

lemma paired_state_result: "state T loads a = (r, a') \<Longrightarrow> paired a \<Longrightarrow> paired a'"
  using paired_state[of a T loads] by simp

lemma paired_fetch:
  assumes "paired a"
  shows "paired (snd (fetch T loads upgrade pair a))"
proof (cases "wants_upgrade upgrade")
  case False
  obtain r a1 where s: "state T loads a = (r, a1)" by (cases "state T loads a")
  from paired_state_result[OF s assms] have "paired a1" .
  with False s show ?thesis
    by (auto simp: fetch_def split: sum.splits)
next
  case True
  let ?a1 = "a\<lparr>sockets := sockets a @ [snd pair]\<rparr>"
  let ?ident = "PDict [(''type'', PStr CF_AGENT_IDENTITY), (''name'', PStr (ctx_id ?a1)),
                       (''agent'', PStr (camel_to_kebab (type_name T)))]"
  have p1: "paired ?a1" using assms by (simp add: paired_updates)
  obtain r2 a2 where s2: "send_json (snd pair) ?ident ?a1 = (r2, a2)"
    by (cases "send_json (snd pair) ?ident ?a1")
  from paired_send_json[OF s2] p1 have p2: "paired a2" by simp
  obtain r3 a3 where s3: "state T loads a2 = (r3, a3)" by (cases "state T loads a2")
  from paired_state_result[OF s3 p2] have p3: "paired a3" .
  show ?thesis
  proof (cases r2)
    case (Inl e)
    with True s2 p2 show ?thesis by (simp add: fetch_def Let_def)
  next
    case r2: (Inr u)
    show ?thesis
    proof (cases r3)
      case (Inl e)
      with True s2 r2 s3 p3 show ?thesis by (simp add: fetch_def Let_def)
    next
      case r3: (Inr current)
      let ?msg = "PDict [(''type'', PStr CF_AGENT_STATE), (''state'', current)]"
      obtain r4 a4 where s4: "(if current \<noteq> PNone then send_json (snd pair) ?msg a3 else (Inr (), a3)) = (r4, a4)"
        by (cases "if current \<noteq> PNone then send_json (snd pair) ?msg a3 else (Inr (), a3)")
      have p4: "paired a4"
      proof (cases "current \<noteq> PNone")
        case True
        with s4 have "send_json (snd pair) ?msg a3 = (r4, a4)" by simp
        from paired_send_json[OF this] p3 show ?thesis by simp
      next
        case False
        with s4 p3 show ?thesis by simp
      qed
      from True s2 r2 s3 r3 s4 p4 show ?thesis
        by (cases r4) (simp_all add: fetch_def Let_def on_connect_def)
    qed
  qed
qed

lemma paired_handle_rpc:
  assumes "paired a" and "callables_keep paired T"
  shows "paired (snd (handle_rpc T ws parsed a))"
proof (cases parsed)
  case (PDict kvs)
  define rpc_id where "rpc_id = (case map_of kvs ''id'' of None \<Rightarrow> PNone | Some v \<Rightarrow> v)"
  define method_name where "method_name = (case map_of kvs ''method'' of None \<Rightarrow> PNone | Some v \<Rightarrow> v)"
  define args where "args = (case map_of kvs ''args'' of None \<Rightarrow> PList [] | Some v \<Rightarrow> v)"
  have g: "py_get parsed ''id'' PNone = Inr rpc_id" "py_get parsed ''method'' PNone = Inr method_name"
    "py_get parsed ''args'' (PList []) = Inr args"
    using PDict by (simp_all add: py_get_def rpc_id_def method_name_def args_def)
  show ?thesis
  proof (cases "find_callable (get_callable_methods T) method_name")
    case (Inl e)
    with g assms(1) show ?thesis by (simp add: handle_rpc_def)
  next
    case (Inr found)
    show ?thesis
    proof (cases found)
      case None
      let ?v = "rpc_response rpc_id False ''error'' (PStr (''Method '' @ py_str method_name @ '' is not callable''))"
      obtain r a' where s: "send_json ws ?v a = (r, a')" by (cases "send_json ws ?v a")
      from paired_send_json[OF s] assms(1) have "paired a'" by simp
      with g Inr None s show ?thesis by (simp add: handle_rpc_def)
    next
      case (Some meth)
      with Inr obtain name where n: "method_name = PStr name" "get_callable_methods T name = Some meth"
        by (cases method_name) (auto simp: find_callable_def)
      let ?body = "case star_args (func_name meth) args of
                   Inl e \<Rightarrow> (Inl e, a)
                 | Inr argv \<Rightarrow>
                     (case call meth argv a of
                        (Inl e, a1) \<Rightarrow> (Inl e, a1)
                      | (Inr result, a1) \<Rightarrow>
                          send_json ws (rpc_response rpc_id True ''result'' result) a1)"
      obtain rb ab where b: "?body = (rb, ab)" by (cases ?body)
      have pb: "paired ab"
      proof (cases "star_args (func_name meth) args")
        case (Inl e)
        with b assms(1) show ?thesis by simp
      next
        case (Inr argv)
        obtain r a1 where c: "call meth argv a = (r, a1)" by (cases "call meth argv a")
        from assms(2) n(2) assms(1) have "paired (snd (call meth argv a))"
          unfolding callables_keep_def by blast
        with c have p1: "paired a1" by simp
        show ?thesis
        proof (cases r)
          case (Inl e)
          with b Inr c p1 show ?thesis by simp
        next
          case (Inr result)
          with b \<open>star_args (func_name meth) args = Inr argv\<close> c
          have "send_json ws (rpc_response rpc_id True ''result'' result) a1 = (rb, ab)" by simp
          from paired_send_json[OF this] p1 show ?thesis by simp
        qed
      qed
      show ?thesis
      proof (cases rb)
        case (Inr u)
        with g \<open>find_callable (get_callable_methods T) method_name = Inr found\<close> Some b pb
        show ?thesis by (simp add: handle_rpc_def)
      next
        case (Inl e)
        let ?v = "rpc_response rpc_id False ''error'' (PStr (str_of e))"
        obtain r a' where s: "send_json ws ?v ab = (r, a')" by (cases "send_json ws ?v ab")
        from paired_send_json[OF s] pb have "paired a'" by simp
        with g \<open>find_callable (get_callable_methods T) method_name = Inr found\<close> Some b Inl s
        show ?thesis by (simp add: handle_rpc_def)
      qed
    qed
  qed
qed (use assms(1) in \<open>simp_all add: handle_rpc_def py_get_def\<close>)

lemma paired_webSocketMessage:
  assumes "paired a" and "callables_keep paired T"
  shows "paired (snd (webSocketMessage T loads ws m a))"
proof (cases m)
  case Bytes
  with assms(1) show ?thesis by (simp add: webSocketMessage_def on_message_def)
next
  case (Text raw)
  show ?thesis
  proof (cases "loads raw")
    case (Inl err)
    with Text assms(1) show ?thesis by (simp add: webSocketMessage_def on_message_def)
  next
    case loaded: (Inr parsed)
    show ?thesis
    proof (cases "py_get parsed ''type'' PNone")
      case (Inl e)
      with Text loaded assms(1) show ?thesis by (simp add: webSocketMessage_def)
    next
      case (Inr msg_type)
      then obtain kvs where p: "parsed = PDict kvs"
        by (cases parsed) (auto simp: py_get_def)
      then obtain new_state where ns: "py_get parsed ''state'' PNone = Inr new_state"
        by (simp add: py_get_def)
      obtain r a1 where w: "set_state_internal new_state (Some ws) a = (r, a1)"
        by (cases "set_state_internal new_state (Some ws) a")
      from paired_set_state_internal[OF assms(1), of new_state "Some ws"] w have p1: "paired a1"
        by simp
      have push: "paired (snd (case set_state_internal new_state (Some ws) a of
                              (Inr u, a1) \<Rightarrow> (Inr (), a1)
                            | (Inl e, a1) \<Rightarrow>
                                send_json ws
                                  (PDict [(''type'', PStr CF_AGENT_STATE_ERROR),
                                          (''error'', PStr (str_of e))]) a1))"
      proof (cases r)
        case (Inr u)
        with w p1 show ?thesis by simp
      next
        case (Inl e)
        let ?v = "PDict [(''type'', PStr CF_AGENT_STATE_ERROR), (''error'', PStr (str_of e))]"
        obtain r' a' where s: "send_json ws ?v a1 = (r', a')" by (cases "send_json ws ?v a1")
        from paired_send_json[OF s] p1 have "paired a'" by simp
        with w Inl s show ?thesis by simp
      qed
      from Text loaded Inr ns push assms paired_handle_rpc[OF assms, of ws parsed]
      show ?thesis
        by (simp add: webSocketMessage_def on_message_def)
    qed
  qed
qed

lemma paired_step:
  "paired a \<Longrightarrow> callables_keep paired T \<Longrightarrow> paired (step T loads ev a)"
  by (cases ev)
     (simp_all add: set_state_def paired_set_state_internal paired_state paired_fetch
        paired_webSocketMessage webSocketClose_def webSocketError_def on_close_def
        on_error_def init_def paired_updates)

lemma paired_run:
  "paired a \<Longrightarrow> callables_keep paired T \<Longrightarrow> paired (run T loads evs a)"
  by (induction evs arbitrary: a) (simp_all add: paired_step)

text \<open>
  Claim C10.  From an empty table, after any run of entry points (the callable methods
  keeping the pairing), the current row and the marker row are both there or both
  missing.  A write that returns has put both rows, the marker as \<open>true\<close> and the
  current row as the serialization of the cached state; the recovery from a corrupt
  row without a default deletes both.
\<close>
theorem rows_stay_paired:
  assumes "table a0 = Map.empty"
    and "callables_keep paired T"
  shows "paired (run T loads evs a0) \<and>
         (\<forall>v src a a'. set_state_internal v src a = (Inr (), a') \<longrightarrow>
            table a' STATE_WAS_CHANGED = Some (Some ''true'') \<and>
            (\<exists>js. json_dumps (self_state a') = Inr js \<and> table a' STATE_ROW_ID = Some (Some js))) \<and>
         (\<forall>a marker col err.
            self_state a = UNSET \<and> table a STATE_WAS_CHANGED = Some marker \<and>
            table a STATE_ROW_ID = Some col \<and> loads_column loads col = Inl err \<and>
            (is_JSONDecodeError err \<or> is_TypeError err) \<and> initial_state T = UNSET \<longrightarrow>
            table (snd (state T loads a)) STATE_ROW_ID = None \<and>
            table (snd (state T loads a)) STATE_WAS_CHANGED = None)"
proof (intro conjI allI impI)
  from assms(1) have "paired a0" by (simp add: paired_def)
  from paired_run[OF this assms(2)] show "paired (run T loads evs a0)" .
next
  fix v src and a a' :: agent
  assume w: "set_state_internal v src a = (Inr (), a')"
  from set_state_internal_returns[OF w] obtain js msg where
    j: "json_dumps v = Inr js"
    and a': "a' = a\<lparr>self_state := v,
                   table := (table a)(STATE_ROW_ID \<mapsto> Some js, STATE_WAS_CHANGED \<mapsto> Some ''true''),
                   sent := sent a @ map (\<lambda>ws. (ws, msg)) (filter (\<lambda>ws. Some ws \<noteq> src) (sockets a))\<rparr>"
    by blast
  from a' show "table a' STATE_WAS_CHANGED = Some (Some ''true'')" by simp
  from a' j have "json_dumps (self_state a') = Inr js \<and> table a' STATE_ROW_ID = Some (Some js)"
    by (simp add: STATE_ROW_ID_def STATE_WAS_CHANGED_def)
  then show "\<exists>js. json_dumps (self_state a') = Inr js \<and> table a' STATE_ROW_ID = Some (Some js)"
    by blast
next
  fix a :: agent and marker col err
  assume h: "self_state a = UNSET \<and> table a STATE_WAS_CHANGED = Some marker \<and>
            table a STATE_ROW_ID = Some col \<and> loads_column loads col = Inl err \<and>
            (is_JSONDecodeError err \<or> is_TypeError err) \<and> initial_state T = UNSET"
  then show "table (snd (state T loads a)) STATE_ROW_ID = None"
    by (auto simp: state_def STATE_ROW_ID_def STATE_WAS_CHANGED_def)
  from h show "table (snd (state T loads a)) STATE_WAS_CHANGED = None"
    by (auto simp: state_def)
qed

lemma paired_set_state: "set_state v a = (r, a') \<Longrightarrow> paired a \<Longrightarrow> paired a'"
  using paired_set_state_internal[of a v None] by (simp add: set_state_def)

lemma paired_counter_self_state:
  "counter_self_state loads a = (r, a') \<Longrightarrow> paired a \<Longrightarrow> paired a'"
  unfolding counter_self_state_def by (rule paired_state_result)

lemma paired_increment: "paired a \<Longrightarrow> paired (snd (increment loads argv a))"
  by (auto simp: increment_def Let_def split: prod.splits sum.splits
           dest: paired_counter_self_state paired_set_state)

lemma paired_decrement: "paired a \<Longrightarrow> paired (snd (decrement loads argv a))"
  by (auto simp: decrement_def Let_def split: prod.splits sum.splits
           dest: paired_counter_self_state paired_set_state)

lemma paired_reset: "paired a \<Longrightarrow> paired (snd (reset argv a))"
  by (auto simp: reset_def split: prod.splits sum.splits dest: paired_set_state)

lemma paired_get_count: "paired a \<Longrightarrow> paired (snd (get_count loads argv a))"
  by (auto simp: get_count_def split: prod.splits sum.splits dest: paired_counter_self_state)

lemma counter_agent_keeps_pairs: "callables_keep paired (CounterAgent loads)"
  unfolding callables_keep_def
proof (intro allI impI)
  fix name m argv and a :: agent
  assume h: "get_callable_methods (CounterAgent loads) name = Some m \<and> paired a"
  then have "call m = increment loads \<or> call m = decrement loads \<or> call m = reset \<or>
             call m = get_count loads"
    by (auto simp: get_callable_methods_def CounterAgent_def split: if_splits option.splits)
  with h show "paired (snd (call m argv a))"
    by (auto simp: paired_increment paired_decrement paired_reset paired_get_count)
qed

lemma counter_self_state_eq:
  "counter_self_state loads a = state (CounterAgent loads) loads a"
  unfolding counter_self_state_def
  by (rule state_reads_initial_state_only) (simp add: CounterAgent_def)

section \<open>The identity formatter on the documented names\<close>

text \<open>
  Claim C6.  \<open>_camel_to_kebab\<close> is a function of its argument alone, and on the three
  documented names it gives \<open>counter-agent\<close>, \<open>agent\<close> and \<open>http-server-agent\<close>,
  character for character.
\<close>

theorem camel_to_kebab_examples:
  "camel_to_kebab ''CounterAgent'' = ''counter-agent'' \<and>
   camel_to_kebab ''Agent'' = ''agent'' \<and>
   camel_to_kebab ''HTTPServerAgent'' = ''http-server-agent''"
  by code_simp

section \<open>The claims on the sample inputs\<close>

text \<open>What the sample parser and \<open>json.dumps\<close> give on the sample inputs.\<close>
lemma sample_parse:
  "sample_loads ''null'' = Inr PNone"
  "sample_loads ''7'' = Inr (PInt 7)"
  "sample_loads ''{'' =
     Inl (JSONDecodeError
            ''Expecting property name enclosed in double quotes: line 1 column 2 (char 1)'')"
  by code_simp+

lemma sample_texts:
  "json_dumps (PInt 7) = Inr ''7''"
  "json_dumps (initial_state (CounterAgent sample_loads)) = Inr (text_of (initial_state (CounterAgent sample_loads)))"
  by code_simp+

text \<open>
  Claim C1 does not hold as stated: on a fresh \<open>CounterAgent\<close> (no row, nothing
  cached) the read of \<open>state\<close> returns the default, and afterwards both rows are in
  the table and each of the three connections has been sent a message; the plain
  \<open>fetch\<close> does the same.
\<close>

theorem state_read_default_counterexample:
  "fst (state (CounterAgent sample_loads) sample_loads fresh) = Inr (initial_state (CounterAgent sample_loads)) \<and>
   table fresh STATE_ROW_ID = None \<and>
   table (snd (state (CounterAgent sample_loads) sample_loads fresh)) STATE_ROW_ID
     = Some (Some (text_of (initial_state (CounterAgent sample_loads)))) \<and>
   table (snd (state (CounterAgent sample_loads) sample_loads fresh)) STATE_WAS_CHANGED = Some (Some ''true'') \<and>
   map fst (sent (snd (state (CounterAgent sample_loads) sample_loads fresh))) = [1, 2, 3] \<and>
   table (snd (fetch (CounterAgent sample_loads) sample_loads None (0, 9) fresh)) STATE_ROW_ID
     = Some (Some (text_of (initial_state (CounterAgent sample_loads)))) \<and>
   map fst (sent (snd (fetch (CounterAgent sample_loads) sample_loads None (0, 9) fresh))) = [1, 2, 3]"
  by code_simp

text \<open>
  Claim C1 on the example: the first read of the state of a fresh \<open>CounterAgent\<close>
  returns the default, writes both rows and sends to the three connections, and the
  plain \<open>fetch\<close> ends in the same agent; the read of the cached 7 changes nothing.
\<close>
theorem state_read_persists_default_witness:
  "(\<exists>a' body.
        state (CounterAgent sample_loads) sample_loads fresh = (Inr (initial_state (CounterAgent sample_loads)), a') \<and>
        fetch (CounterAgent sample_loads) sample_loads None (0, 9) fresh = (Inr (JsonBody body), a') \<and>
        table a' STATE_WAS_CHANGED = Some (Some ''true'') \<and>
        table a' STATE_ROW_ID = Some (Some (text_of (initial_state (CounterAgent sample_loads)))) \<and>
        map fst (sent a') = [1, 2, 3]) \<and>
   state (CounterAgent sample_loads) sample_loads seven = (Inr (PInt 7), seven)"
proof -
  have h1: "self_state fresh = UNSET" by (simp add: fresh_def)
  have h2: "table fresh STATE_WAS_CHANGED = None" by (simp add: fresh_def)
  have h3: "initial_state (CounterAgent sample_loads) \<noteq> UNSET"
    by (simp add: CounterAgent_def counter_initial_state_def UNSET_def)
  have h5: "\<forall>ws \<in> set (sockets fresh). send_fault fresh ws = None" by (simp add: fresh_def)
  have h6: "\<not> wants_upgrade None" by (simp add: wants_upgrade_def)
  have c: "self_state seven \<noteq> UNSET \<and> self_state seven = PInt 7"
    by (simp add: seven_def UNSET_def)
  from state_read_persists_default[OF h1 h2 h3 sample_texts(2) h5 h6, of sample_loads "(0, 9)"] c
  show ?thesis
    by (auto simp: fresh_def STATE_ROW_ID_def STATE_WAS_CHANGED_def)
qed



text \<open>
  Claim C3 does not hold as stated: with the second of three connections raising on
  \<open>send\<close>, the write raises, and the third connection, registered and sound, is never
  sent the message; only the first one is.
\<close>
theorem broadcast_failure_counterexample:
  "fst (set_state (PInt 7) one_down) = Inl (OtherError ''closed'') \<and>
   sockets one_down = [1, 2, 3] \<and>
   send_fault one_down 3 = None \<and>
   map fst (sent (snd (set_state (PInt 7) one_down))) = [1]"
  by code_simp

text \<open>Claim C3 on the same agent: rows and cache hold 7, one message went out.\<close>
theorem broadcast_stops_at_failed_send_witness:
  "\<exists>msg. set_state_internal (PInt 7) None one_down =
           (Inl (OtherError ''closed''),
            one_down\<lparr>self_state := PInt 7,
                     table := (table one_down)(STATE_ROW_ID \<mapsto> Some ''7'',
                                               STATE_WAS_CHANGED \<mapsto> Some ''true''),
                     sent := sent one_down @ [(1, msg)]\<rparr>)"
proof -
  have h2: "sockets one_down = [1] @ 2 # [3]" by (simp add: one_down_def fresh_def)
  have h3: "\<forall>ws \<in> set [1]. Some ws \<noteq> None \<longrightarrow> send_fault one_down ws = None"
    by (simp add: one_down_def fresh_def)
  have h4: "send_fault one_down 2 = Some ''closed''" by (simp add: one_down_def fresh_def)
  have h5: "Some (2::nat) \<noteq> None" by simp
  from broadcast_stops_at_failed_send[OF sample_texts(1) h2 h3 h4 h5]
  obtain msg where "set_state_internal (PInt 7) None one_down =
           (Inl (OtherError ''closed''),
            one_down\<lparr>self_state := PInt 7,
                     table := (table one_down)(STATE_ROW_ID \<mapsto> Some ''7'',
                                               STATE_WAS_CHANGED \<mapsto> Some ''true''),
                     sent := sent one_down
                       @ map (\<lambda>ws. (ws, msg)) (filter (\<lambda>ws. Some ws \<noteq> None) [1])\<rparr>)"
    by blast
  then have "set_state_internal (PInt 7) None one_down =
           (Inl (OtherError ''closed''),
            one_down\<lparr>self_state := PInt 7,
                     table := (table one_down)(STATE_ROW_ID \<mapsto> Some ''7'',
                                               STATE_WAS_CHANGED \<mapsto> Some ''true''),
                     sent := sent one_down @ [(1, msg)]\<rparr>)"
    by simp
  then show ?thesis by blast
qed

text \<open>
  Claim C4 does not hold as stated: the state \<open>null\<close> is persisted (both rows are
  there), a connection opens, and the only message it gets is the identity message.
\<close>
theorem open_with_null_state_counterexample:
  "table null_stored STATE_ROW_ID = Some (Some ''null'') \<and>
   table null_stored STATE_WAS_CHANGED = Some (Some ''true'') \<and>
   fst (fetch PlainAgent sample_loads (Some ''websocket'') (0, 9) null_stored) = Inr (Switching 0) \<and>
   self_state (snd (fetch PlainAgent sample_loads (Some ''websocket'') (0, 9) null_stored)) = PNone \<and>
   sent (snd (fetch PlainAgent sample_loads (Some ''websocket'') (0, 9) null_stored))
     = [(9, text_of (PDict [(''type'', PStr ''cf_agent_identity''), (''name'', PStr ''default''),
                            (''agent'', PStr ''agent'')]))]"
  by code_simp

lemma sample_facts:
  "wants_upgrade (Some ''websocket'')"
  "loads_column sample_loads (Some ''{'') =
     Inl (JSONDecodeError
            ''Expecting property name enclosed in double quotes: line 1 column 2 (char 1)'')"
  "sample_loads (text_of (PDict [(''type'', PStr ''cf_agent_state''), (''state'', PInt 7)]))
     = Inr (PDict [(''type'', PStr ''cf_agent_state''), (''state'', PInt 7)])"
  "json_dumps (PStr ''1'') = Inr (text_of (PStr ''1''))"
  "json_dumps (PStr ''2'') = Inr (text_of (PStr ''2''))"
  "json_dumps (PStr ''3'') = Inr (text_of (PStr ''3''))"
  "json_dumps (PInt 5) = Inr ''5''"
  by code_simp+

text \<open>
  Claim C4 on a restarted agent whose persisted state is 7: the new connection 9 gets
  the identity message and then the state message, and no other connection gets any.
\<close>
theorem open_sends_identity_then_state_witness:
  "\<exists>ident msg.
     json_dumps (PDict [(''type'', PStr CF_AGENT_STATE), (''state'', PInt 7)]) = Inr msg \<and>
     fetch PlainAgent sample_loads (Some ''websocket'') (0, 9) (init seven) =
       (Inr (Switching 0),
        seven\<lparr>sockets := [1, 2, 3, 9], sent := [(9, ident), (9, msg)]\<rparr>)"
proof -
  let ?ident = "text_of (PDict [(''type'', PStr CF_AGENT_IDENTITY), (''name'', PStr (ctx_id (init seven))),
                            (''agent'', PStr (camel_to_kebab (type_name PlainAgent)))])"
  let ?a1 = "(init seven)\<lparr>sockets := sockets (init seven) @ [9],
                           sent := sent (init seven) @ [(9, ?ident)]\<rparr>"
  have h2: "send_fault (init seven) 9 = None" by (simp add: init_def seven_def fresh_def)
  have h3: "json_dumps (PDict [(''type'', PStr CF_AGENT_IDENTITY), (''name'', PStr (ctx_id (init seven))),
                            (''agent'', PStr (camel_to_kebab (type_name PlainAgent)))]) = Inr ?ident"
    by (simp add: text_of_def)
  have h5: "state PlainAgent sample_loads ?a1 = (Inr (PInt 7), ?a1\<lparr>self_state := PInt 7\<rparr>)"
    by (simp add: state_def init_def seven_def fresh_def loads_column_def sample_parse
          STATE_ROW_ID_def STATE_WAS_CHANGED_def)
  from open_sends_identity_then_state[OF sample_facts(1) h2 h3 refl h5 sample_texts(1), of 0]
  obtain msg where
    m: "json_dumps (PDict [(''type'', PStr CF_AGENT_STATE), (''state'', PInt 7)]) = Inr msg"
    and f: "fetch PlainAgent sample_loads (Some ''websocket'') (0, 9) (init seven) =
       (Inr (Switching 0),
        ?a1\<lparr>self_state := PInt 7,
             sent := sent (?a1\<lparr>self_state := PInt 7\<rparr>) @ (if PInt 7 \<noteq> PNone then [(9, msg)] else [])\<rparr>)"
    by auto
  have "?a1\<lparr>self_state := PInt 7,
             sent := sent (?a1\<lparr>self_state := PInt 7\<rparr>) @ (if PInt 7 \<noteq> PNone then [(9, msg)] else [])\<rparr>
        = seven\<lparr>sockets := [1, 2, 3, 9], sent := [(9, ?ident), (9, msg)]\<rparr>"
    by (simp add: init_def seven_def fresh_def)
  with m f show ?thesis by auto
qed

text \<open>
  Claim C5 does not hold as stated: the marker row is there, the current row \<open>{\<close> does
  not deserialize, a default is configured, and the second connection raises on
  \<open>send\<close>; the read of \<open>state\<close> raises the error of that send.
\<close>
theorem corrupt_row_read_counterexample:
  "self_state corrupt_one_down = UNSET \<and>
   table corrupt_one_down STATE_WAS_CHANGED = Some (Some ''true'') \<and>
   table corrupt_one_down STATE_ROW_ID = Some (Some ''{'') \<and>
   sample_loads ''{'' =
     Inl (JSONDecodeError
            ''Expecting property name enclosed in double quotes: line 1 column 2 (char 1)'') \<and>
   initial_state (CounterAgent sample_loads) = PDict [(''count'', PInt 0), (''last_action'', PNone)] \<and>
   fst (state (CounterAgent sample_loads) sample_loads corrupt_one_down) = Inl (OtherError ''closed'')"
  by code_simp

text \<open>
  Claim C5 on the samples.  On the current row \<open>{\<close> the base class deletes both rows and
  the \<open>CounterAgent\<close> restores its default; with the second connection raising, the
  \<open>CounterAgent\<close> raises after the write and the send to the first connection; and on
  the row of 5000 digits the read raises the \<open>ValueError\<close> of \<open>json.loads\<close>.
\<close>
theorem corrupt_row_read_witness:
  "state PlainAgent sample_loads corrupt =
     (Inr PNone, corrupt\<lparr>table := ((table corrupt)(STATE_ROW_ID := None))(STATE_WAS_CHANGED := None)\<rparr>) \<and>
   (\<exists>msg. state (CounterAgent sample_loads) sample_loads corrupt =
      (Inr (initial_state (CounterAgent sample_loads)),
       corrupt\<lparr>self_state := initial_state (CounterAgent sample_loads),
               table := (table corrupt)(STATE_ROW_ID \<mapsto> Some (text_of (initial_state (CounterAgent sample_loads))),
                                        STATE_WAS_CHANGED \<mapsto> Some ''true''),
               sent := sent corrupt @ map (\<lambda>ws. (ws, msg)) (sockets corrupt)\<rparr>)) \<and>
   (\<exists>msg. state (CounterAgent sample_loads) sample_loads corrupt_one_down =
      (Inl (OtherError ''closed''),
       corrupt_one_down\<lparr>self_state := initial_state (CounterAgent sample_loads),
               table := (table corrupt_one_down)(STATE_ROW_ID \<mapsto> Some (text_of (initial_state (CounterAgent sample_loads))),
                                        STATE_WAS_CHANGED \<mapsto> Some ''true''),
               sent := sent corrupt_one_down @ map (\<lambda>ws. (ws, msg)) [1]\<rparr>)) \<and>
   (\<exists>m. state (CounterAgent digits_loads) digits_loads long_row = (Inl (ValueError m), long_row))"
proof -
  let ?err = "JSONDecodeError
            ''Expecting property name enclosed in double quotes: line 1 column 2 (char 1)''"
  let ?d = "text_of (initial_state (CounterAgent sample_loads))"
  have h1: "self_state corrupt = UNSET" by (simp add: corrupt_def fresh_def)
  have h2: "table corrupt STATE_WAS_CHANGED = Some (Some ''true'')"
    by (simp add: corrupt_def)
  have h3: "table corrupt STATE_ROW_ID = Some (Some ''{'')"
    by (simp add: corrupt_def STATE_ROW_ID_def STATE_WAS_CHANGED_def)
  have k1: "self_state corrupt_one_down = UNSET" by (simp add: corrupt_one_down_def corrupt_def fresh_def)
  have k2: "table corrupt_one_down STATE_WAS_CHANGED = Some (Some ''true'')"
    by (simp add: corrupt_one_down_def corrupt_def)
  have k3: "table corrupt_one_down STATE_ROW_ID = Some (Some ''{'')"
    by (simp add: corrupt_one_down_def corrupt_def STATE_ROW_ID_def STATE_WAS_CHANGED_def)
  have p: "(is_JSONDecodeError ?err \<or> is_TypeError ?err) \<and> initial_state PlainAgent = UNSET"
    by (simp add: PlainAgent_def)
  have c: "(is_JSONDecodeError ?err \<or> is_TypeError ?err) \<and> initial_state (CounterAgent sample_loads) \<noteq> UNSET"
    by (simp add: CounterAgent_def counter_initial_state_def UNSET_def)
  have ok: "\<forall>ws \<in> set (sockets corrupt). send_fault corrupt ws = None"
    by (simp add: corrupt_def fresh_def)
  have down: "sockets corrupt_one_down = [1] @ 2 # [3] \<and>
      (\<forall>ws \<in> set [1]. send_fault corrupt_one_down ws = None) \<and>
      send_fault corrupt_one_down 2 = Some ''closed''"
    by (simp add: corrupt_one_down_def corrupt_def fresh_def)
  have i: "state PlainAgent sample_loads corrupt =
     (Inr PNone, corrupt\<lparr>table := ((table corrupt)(STATE_ROW_ID := None))(STATE_WAS_CHANGED := None)\<rparr>)"
    using corrupt_row_read[OF h1 h2 h3 sample_facts(2), of PlainAgent] p by blast
  from corrupt_row_read[OF h1 h2 h3 sample_facts(2), of "CounterAgent sample_loads"] c sample_texts(2)
  obtain msg where "(\<forall>ws \<in> set (sockets corrupt). send_fault corrupt ws = None) \<longrightarrow>
      state (CounterAgent sample_loads) sample_loads corrupt =
      (Inr (initial_state (CounterAgent sample_loads)),
       corrupt\<lparr>self_state := initial_state (CounterAgent sample_loads),
               table := (table corrupt)(STATE_ROW_ID \<mapsto> Some ?d, STATE_WAS_CHANGED \<mapsto> Some ''true''),
               sent := sent corrupt @ map (\<lambda>ws. (ws, msg)) (sockets corrupt)\<rparr>)"
    by blast
  with ok have ii: "\<exists>msg. state (CounterAgent sample_loads) sample_loads corrupt =
      (Inr (initial_state (CounterAgent sample_loads)),
       corrupt\<lparr>self_state := initial_state (CounterAgent sample_loads),
               table := (table corrupt)(STATE_ROW_ID \<mapsto> Some ?d, STATE_WAS_CHANGED \<mapsto> Some ''true''),
               sent := sent corrupt @ map (\<lambda>ws. (ws, msg)) (sockets corrupt)\<rparr>)"
    by blast
  from corrupt_row_read[OF k1 k2 k3 sample_facts(2), of "CounterAgent sample_loads"] c sample_texts(2)
  obtain msg' where "\<forall>pre bad post m.
      sockets corrupt_one_down = pre @ bad # post \<and>
      (\<forall>ws \<in> set pre. send_fault corrupt_one_down ws = None) \<and>
      send_fault corrupt_one_down bad = Some m \<longrightarrow>
      state (CounterAgent sample_loads) sample_loads corrupt_one_down =
      (Inl (OtherError m),
       corrupt_one_down\<lparr>self_state := initial_state (CounterAgent sample_loads),
               table := (table corrupt_one_down)(STATE_ROW_ID \<mapsto> Some ?d,
                                                 STATE_WAS_CHANGED \<mapsto> Some ''true''),
               sent := sent corrupt_one_down @ map (\<lambda>ws. (ws, msg')) pre\<rparr>)"
    by blast
  with down have iii: "\<exists>msg. state (CounterAgent sample_loads) sample_loads corrupt_one_down =
      (Inl (OtherError ''closed''),
       corrupt_one_down\<lparr>self_state := initial_state (CounterAgent sample_loads),
               table := (table corrupt_one_down)(STATE_ROW_ID \<mapsto> Some ?d,
                                                 STATE_WAS_CHANGED \<mapsto> Some ''true''),
               sent := sent corrupt_one_down @ map (\<lambda>ws. (ws, msg)) [1]\<rparr>)"
    by blast
  let ?v = "ValueError (''Exceeds the limit (4300 digits) for integer string conversion: '' @
                         ''value has 5000 digits; use sys.set_int_max_str_digits() '' @
                         ''to increase the limit'')"
  have l1: "self_state long_row = UNSET" by (simp add: long_row_def fresh_def)
  have l2: "table long_row STATE_WAS_CHANGED = Some (Some ''true'')"
    by (simp add: long_row_def)
  have l3: "table long_row STATE_ROW_ID = Some (Some (replicate 5000 (CHR ''1'')))"
    by (simp add: long_row_def STATE_ROW_ID_def STATE_WAS_CHANGED_def)
  have l4: "loads_column digits_loads (Some (replicate 5000 (CHR ''1''))) = Inl ?v"
    by (simp add: loads_column_def digits_loads_def)
  have l5: "\<not> (is_JSONDecodeError ?v \<or> is_TypeError ?v)" by simp
  have iv: "\<exists>m. state (CounterAgent digits_loads) digits_loads long_row = (Inl (ValueError m), long_row)"
    using corrupt_row_read[OF l1 l2 l3 l4, of "CounterAgent digits_loads"] l5 by blast
  from i ii iii iv show ?thesis by blast
qed

text \<open>
  Claim C7 on the example: the request for \<open>nope\<close> is answered with
  \<open>Method nope is not callable\<close>, and the public but unmarked \<open>set_state\<close> is not
  callable either.
\<close>
theorem uncallable_method_answer_witness:
  "(\<exists>msg. json_dumps (PDict [(''type'', PStr ''rpc''), (''id'', PStr ''2''), (''success'', PBool False),
                             (''error'', PStr ''Method nope is not callable'')])
             = Inr msg \<and>
          handle_rpc (CounterAgent sample_loads) 2
            (PDict [(''type'', PStr ''rpc''), (''id'', PStr ''2''), (''method'', PStr ''nope''),
                    (''args'', PList [])]) fresh
          = (Inr (), fresh\<lparr>sent := sent fresh @ [(2, msg)]\<rparr>)) \<and>
   get_callable_methods (CounterAgent sample_loads) ''set_state'' = None"
proof -
  let ?parsed = "PDict [(''type'', PStr ''rpc''), (''id'', PStr ''2''), (''method'', PStr ''nope''),
                        (''args'', PList [])]"
  have h1: "py_get ?parsed ''id'' PNone = Inr (PStr ''2'')" by (simp add: py_get_def)
  have h2: "py_get ?parsed ''method'' PNone = Inr (PStr ''nope'')" by (simp add: py_get_def)
  have h3: "get_callable_methods (CounterAgent sample_loads) ''nope'' = None"
    by (simp add: get_callable_methods_def startswith_underscore_def CounterAgent_def)
  have h5: "send_fault fresh 2 = None" by (simp add: fresh_def)
  have u: "\<forall>attr. members (CounterAgent sample_loads) ''set_state'' = Some attr \<longrightarrow> \<not> agent_callable attr"
    by (simp add: CounterAgent_def)
  have t: "''Method '' @ ''nope'' @ '' is not callable'' = ''Method nope is not callable''"
    by simp
  from uncallable_method_answer[OF h1 h2 h3 sample_facts(5) h5] u
  show ?thesis unfolding t by blast
qed

text \<open>
  Claim C8 on the example: \<open>increment\<close> with the arguments \<open>[5]\<close> on a fresh counter
  answers with the result 5 after its own write of the count 5, and \<open>reset\<close> with one
  argument too many answers with the text of the \<open>TypeError\<close>.
\<close>
theorem callable_method_answer_witness:
  "(\<exists>msg. json_dumps (PDict [(''type'', PStr ''rpc''), (''id'', PStr ''1''), (''success'', PBool True),
                             (''result'', PInt 5)]) = Inr msg \<and>
          handle_rpc (CounterAgent sample_loads) 2
            (PDict [(''type'', PStr ''rpc''), (''id'', PStr ''1''), (''method'', PStr ''increment''),
                    (''args'', PList [PInt 5])]) fresh
          = (Inr (), (snd (increment sample_loads [PInt 5] fresh))
                       \<lparr>sent := sent (snd (increment sample_loads [PInt 5] fresh)) @ [(2, msg)]\<rparr>)) \<and>
   self_state (snd (increment sample_loads [PInt 5] fresh))
     = PDict [(''count'', PInt 5), (''last_action'', PStr ''increment'')] \<and>
   (\<exists>msg. json_dumps (PDict [(''type'', PStr ''rpc''), (''id'', PStr ''3''), (''success'', PBool False),
                             (''error'', PStr ''CounterAgent.reset() takes 1 positional argument but 2 were given'')])
             = Inr msg \<and>
          handle_rpc (CounterAgent sample_loads) 2
            (PDict [(''type'', PStr ''rpc''), (''id'', PStr ''3''), (''method'', PStr ''reset''),
                    (''args'', PList [PInt 5])]) fresh
          = (Inr (), fresh\<lparr>sent := sent fresh @ [(2, msg)]\<rparr>))"
proof -
  let ?p1 = "PDict [(''type'', PStr ''rpc''), (''id'', PStr ''1''), (''method'', PStr ''increment''),
                    (''args'', PList [PInt 5])]"
  let ?p3 = "PDict [(''type'', PStr ''rpc''), (''id'', PStr ''3''), (''method'', PStr ''reset''),
                    (''args'', PList [PInt 5])]"
  let ?inc = "\<lparr>agent_callable = True, func_name = ''entry.CounterAgent.increment'',
               call = increment sample_loads\<rparr>"
  let ?res = "\<lparr>agent_callable = True, func_name = ''entry.CounterAgent.reset'', call = reset\<rparr>"
  have g1: "get_callable_methods (CounterAgent sample_loads) ''increment'' = Some ?inc"
    by (simp add: get_callable_methods_def startswith_underscore_def CounterAgent_def)
  have g3: "get_callable_methods (CounterAgent sample_loads) ''reset'' = Some ?res"
    by (simp add: get_callable_methods_def startswith_underscore_def CounterAgent_def)
  have a1: "py_get ?p1 ''id'' PNone = Inr (PStr ''1'')"
    and a2: "py_get ?p1 ''method'' PNone = Inr (PStr ''increment'')"
    and a3: "py_get ?p1 ''args'' (PList []) = Inr (PList [PInt 5])"
    by (simp_all add: py_get_def)
  have e1: "fst (increment sample_loads [PInt 5] fresh) = Inr (PInt 5)" by code_simp
  have a5: "call ?inc [PInt 5] fresh = (Inr (PInt 5), snd (increment sample_loads [PInt 5] fresh))"
    using e1 by (simp add: prod_eq_iff)
  have a7: "send_fault (snd (increment sample_loads [PInt 5] fresh)) 2 = None" by code_simp
  have s: "self_state (snd (increment sample_loads [PInt 5] fresh))
     = PDict [(''count'', PInt 5), (''last_action'', PStr ''increment'')]" by code_simp
  have b1: "py_get ?p3 ''id'' PNone = Inr (PStr ''3'')"
    and b2: "py_get ?p3 ''method'' PNone = Inr (PStr ''reset'')"
    and b3: "py_get ?p3 ''args'' (PList []) = Inr (PList [PInt 5])"
    by (simp_all add: py_get_def)
  have e3: "fst (reset [PInt 5] fresh)
      = Inl (TypeError ''CounterAgent.reset() takes 1 positional argument but 2 were given'')"
    by code_simp
  have e3': "snd (reset [PInt 5] fresh) = fresh" by (simp add: reset_def)
  have b5: "call ?res [PInt 5] fresh =
      (Inl (TypeError ''CounterAgent.reset() takes 1 positional argument but 2 were given''), fresh)"
    using e3 e3' by (simp add: prod_eq_iff)
  have b7: "send_fault fresh 2 = None" by (simp add: fresh_def)
  from callable_method_answer[OF a1 a2 a3 g1 a5 sample_facts(4) a7] sample_facts(7)
       callable_method_answer[OF b1 b2 b3 g3 b5 sample_facts(6) b7] s
  show ?thesis by auto
qed

text \<open>Claim C9 on the example: a push of 7 from connection 2 reaches 1 and 3, in this order.\<close>
theorem state_push_skips_sender_witness:
  "\<exists>msg. webSocketMessage (CounterAgent sample_loads) sample_loads 2
           (Text (text_of (PDict [(''type'', PStr ''cf_agent_state''), (''state'', PInt 7)]))) fresh =
         (Inr (),
          fresh\<lparr>self_state := PInt 7,
                table := (table fresh)(STATE_ROW_ID \<mapsto> Some ''7'', STATE_WAS_CHANGED \<mapsto> Some ''true''),
                sent := sent fresh @ [(1, msg), (3, msg)]\<rparr>)"
proof -
  let ?kvs = "[(''type'', PStr ''cf_agent_state''), (''state'', PInt 7)]"
  have h2: "map_of ?kvs ''type'' = Some (PStr CF_AGENT_STATE)" by (simp add: CF_AGENT_STATE_def)
  have h3: "py_get (PDict ?kvs) ''state'' PNone = Inr (PInt 7)" by (simp add: py_get_def)
  have h5: "\<forall>ws \<in> set (sockets fresh). ws \<noteq> 2 \<longrightarrow> send_fault fresh ws = None"
    by (simp add: fresh_def)
  from state_push_skips_sender[where loads = sample_loads and T = "CounterAgent sample_loads"
         and raw = "text_of (PDict ?kvs)", OF sample_facts(3) h2 h3 sample_texts(1) h5]
  obtain msg where "webSocketMessage (CounterAgent sample_loads) sample_loads 2
           (Text (text_of (PDict ?kvs))) fresh =
         (Inr (),
          fresh\<lparr>self_state := PInt 7,
                table := (table fresh)(STATE_ROW_ID \<mapsto> Some ''7'', STATE_WAS_CHANGED \<mapsto> Some ''true''),
                sent := sent fresh @ map (\<lambda>ws. (ws, msg)) (filter (\<lambda>ws. ws \<noteq> 2) (sockets fresh))\<rparr>)"
    by blast
  moreover have "map (\<lambda>ws. (ws, msg)) (filter (\<lambda>ws. ws \<noteq> 2) (sockets fresh)) = [(1, msg), (3, msg)]"
    by (simp add: fresh_def)
  ultimately show ?thesis by auto
qed

text \<open>
  Claim C10 on a run of the example agent that opens a connection, is called, restarts,
  reads its state and fails a write.
\<close>
theorem rows_stay_paired_witness:
  "paired (run (CounterAgent sample_loads) sample_loads
     [Fetch (Some ''websocket'') (0, 9),
      Message 9 (Text (text_of (PDict [(''type'', PStr ''rpc''), (''id'', PStr ''1''),
                                       (''method'', PStr ''increment''),
                                       (''args'', PList [PInt 5])]))),
      Restart, ReadState, SetState (PObject ''set'' 1)] fresh)"
proof -
  have h: "table fresh = Map.empty" by (simp add: fresh_def)
  from rows_stay_paired[OF h counter_agent_keeps_pairs] show ?thesis by blast
qed

section \<open>More of the model on the samples\<close>

text \<open>The texts of \<open>json.dumps\<close> for messages of the protocol and for a string with escapes.\<close>
lemma wire_texts:
  \<open>json_dumps (PDict [(''type'', PStr CF_AGENT_STATE),
                      (''state'', PDict [(''count'', PInt (- 12)), (''tags'', PList [PBool True, PNone])])])
     = Inr ''{"type": "cf_agent_state", "state": {"count": -12, "tags": [true, null]}}''\<close>
  \<open>json_dumps (PDict [(''type'', PStr CF_AGENT_IDENTITY), (''name'', PStr ''default''),
                      (''agent'', PStr (camel_to_kebab ''CounterAgent''))])
     = Inr ''{"type": "cf_agent_identity", "name": "default", "agent": "counter-agent"}''\<close>
  \<open>json_dumps (rpc_response (PStr ''2'') False ''error'' (PStr ''Method nope is not callable''))
     = Inr ''{"type": "rpc", "id": "2", "success": false, "error": "Method nope is not callable"}''\<close>
  \<open>json_dumps (PStr [CHR 0x22, CHR 0x5C, CHR 0x0A, CHR 0xE9]) = Inr [CHR 0x22, CHR 0x5C, CHR 0x22, CHR 0x5C, CHR 0x5C, CHR 0x5C, CHR ''n'', CHR 0x5C, CHR ''u'', CHR ''0'', CHR ''0'', CHR ''e'', CHR ''9'', CHR 0x22]\<close>
  by code_simp+

text \<open>The operations on Python values, with the texts of their exceptions.\<close>
lemma python_samples:
  "py_getitem (PInt 7) ''count'' = Inl (TypeError (quoted ''int'' @ '' object is not subscriptable''))"
  "py_getitem (PDict []) ''count'' = Inl (KeyError (quoted ''count''))"
  "py_add (PInt 1) (PStr ''a'') =
     Inl (TypeError (''unsupported operand type(s) for +: '' @ quoted ''int'' @ '' and '' @ quoted ''str''))"
  "py_add (PBool True) (PInt 5) = Inr (PInt 6)"
  "py_add (PStr ''a'') (PStr ''b'') = Inr (PStr ''ab'')"
  "py_sub (PInt 7) (PInt 2) = Inr (PInt 5)"
  "py_str (PObject ''object'' 255) = ''<object object at 0xff>''"
  "py_str PNone = ''None''"
  by code_simp+

text \<open>Unpacking of \<open>args\<close>, the membership test, \<open>get\<close> on a value that is no \<open>dict\<close>, a \<open>NULL\<close> row.\<close>
lemma dispatch_samples:
  "star_args ''entry.CounterAgent.reset'' (PInt 5) =
     Inl (TypeError ''entry.CounterAgent.reset() argument after * must be an iterable, not int'')"
  "star_args f (PStr ''ab'') = Inr [PStr ''a'', PStr ''b'']"
  "star_args f (PDict [(''k'', PNone)]) = Inr [PStr ''k'']"
  "find_callable callables (PList []) = Inl (TypeError (''unhashable type: '' @ quoted ''list''))"
  "find_callable callables PNone = Inr None"
  "py_get (PList []) ''type'' PNone =
     Inl (AttributeError (quoted ''list'' @ '' object has no attribute '' @ quoted ''get''))"
  "loads_column loads None =
     Inl (TypeError ''the JSON object must be str, bytes or bytearray, not NoneType'')"
  by (simp_all add: star_args_def find_callable_def py_get_def loads_column_def quoted_def)

text \<open>The other methods of \<open>CounterAgent\<close> and the inherited \<open>set_state\<close>.\<close>
lemma counter_samples:
  "fst (get_count sample_loads [] fresh) = Inr (PInt 0)"
  "fst (decrement sample_loads [PInt 2] seven)
     = Inl (TypeError (quoted ''int'' @ '' object is not subscriptable''))"
  "fst (decrement sample_loads [] fresh) = Inr (PInt (- 1))"
  "fst (increment sample_loads [PInt 1, PInt 2] fresh)
     = Inl (TypeError ''CounterAgent.increment() takes from 1 to 2 positional arguments but 3 were given'')"
  "fst (set_state_method [] fresh)
     = Inl (TypeError (''Agent.set_state() missing 1 required positional argument: '' @ quoted ''state''))"
  by code_simp+

text \<open>
  Messages that are no protocol message: a text that is not JSON and a binary message go
  to \<open>on_message\<close>; the \<open>ValueError\<close> of \<open>json.loads\<close> is not caught.
\<close>
lemma message_samples:
  "webSocketMessage T sample_loads 2 (Text ''{'') fresh = (Inr (), fresh)"
  "webSocketMessage T digits_loads 2 (Text (replicate 5000 (CHR ''1''))) fresh
     = (Inl (ValueError (''Exceeds the limit (4300 digits) for integer string conversion: '' @
                         ''value has 5000 digits; use sys.set_int_max_str_digits() '' @
                         ''to increase the limit'')), fresh)"
  "webSocketMessage T loads 2 Bytes fresh = (Inr (), fresh)"
  by (simp_all add: webSocketMessage_def on_message_def sample_parse digits_loads_def)

text \<open>An RPC request as a text message is dispatched and answered on its connection.\<close>
lemma rpc_over_the_wire:
  "sent (snd (webSocketMessage (CounterAgent sample_loads) sample_loads 2
      (Text (text_of (PDict [(''type'', PStr ''rpc''), (''id'', PStr ''2''), (''method'', PStr ''nope''),
                             (''args'', PList [])]))) fresh))
   = [(2, text_of (rpc_response (PStr ''2'') False ''error'' (PStr ''Method nope is not callable'')))]"
  by code_simp

end
